theory Spec2Isabelle
  imports Main
begin

section \<open>Platform: errors, DOM snapshot, window state\<close>

text \<open>
  The transition code talks to three browser facilities: the globals it keeps on
  \<^verbatim>\<open>window\<close>, \<^verbatim>\<open>sessionStorage\<close> and the DOM. None of them is code of the repository,
  so each is modelled by its interface contract.

  \<^item> \<^verbatim>\<open>querySelector\<close> has three outcomes: it throws a \<^verbatim>\<open>SyntaxError\<close> when the
    string is not a valid selector, it returns \<^verbatim>\<open>null\<close>, or it returns the first
    matching element. A DOM snapshot is therefore a function from selector strings to
    these outcomes. Elements are identified by a number.
  \<^item> The only DOM mutation the code performs is on \<^verbatim>\<open>style.viewTransitionName\<close>;
    selector matching is taken not to depend on it.
  \<^item> An access to \<^verbatim>\<open>sessionStorage\<close> can throw: a \<^verbatim>\<open>SecurityError\<close> when storage is
    denied to the page, a \<^verbatim>\<open>QuotaExceededError\<close> when \<^verbatim>\<open>setItem\<close> cannot store the
    value. Which calls the platform answers with which exception is a part of the window
    (\<open>storageFault\<close>); a call it answers with none succeeds.
  \<^item> Every call of a platform interface is appended to a trace, so that statements
    about what was read, written or looked up can be made.
\<close>

datatype error = SyntaxError | TypeError | SecurityError | QuotaExceededError

type_synonym element = nat

datatype qresult = Invalid | Null | Found element

datatype event =
    SetItem string string
  | GetItem string
  | QuerySelector string
  | QuerySelectorIn element string
  | CleanUpTransition
  | SetViewTransitionName element string
  | OnClick

record document =
  query :: "string \<Rightarrow> qresult"
  queryWithin :: "element \<Rightarrow> string \<Rightarrow> qresult"
  src :: "element \<Rightarrow> string"
  selectorOf :: "element \<Rightarrow> string"
  viewTransitionName :: "element \<Rightarrow> string"

record 'p window =
  NRVT_routerKey :: "string option"
  NRVT_previousRouterKey :: "string option"
  NRVT_transitionImgSelector :: "string option"
  NRVT_transitionAttributeName :: "string option"
  NRVT_transitionAttributeValue :: "string option"
  sessionStorage :: "string \<Rightarrow> string option"
  storageFault :: "event \<Rightarrow> error option"
  document :: document
  origin :: string
  placeholderData :: "'p option"
  trace :: "event list"

type_synonym 'p outcome = "(error \<times> 'p window) + 'p window"

subsection \<open>JavaScript value conventions\<close>

text \<open>A template literal renders an undefined value as the text \<^verbatim>\<open>undefined\<close>.\<close>

fun tmpl :: "string option \<Rightarrow> string" where
  "tmpl None = ''undefined''"
| "tmpl (Some s) = s"

text \<open>Truthiness of a value of type \<^verbatim>\<open>string | undefined | null\<close>.\<close>

fun truthy :: "string option \<Rightarrow> bool" where
  "truthy None = False"
| "truthy (Some s) = (s \<noteq> [])"

text \<open>\<^verbatim>\<open>x || ''\<close> on such a value.\<close>

fun orEmpty :: "string option \<Rightarrow> string" where
  "orEmpty None = []"
| "orEmpty (Some s) = s"

text \<open>
  \<^verbatim>\<open>s.replace(pat, '')\<close> with a string pattern: the first occurrence of \<open>pat\<close> is
  removed; an empty pattern matches at position 0 and removes nothing.
\<close>

fun removeFirst :: "string \<Rightarrow> string \<Rightarrow> string" where
  "removeFirst pat [] = []"
| "removeFirst pat (c # cs) =
     (if take (length pat) (c # cs) = pat then drop (length pat) (c # cs)
      else c # removeFirst pat cs)"

subsection \<open>Platform calls\<close>

definition logEvent :: "event \<Rightarrow> 'p window \<Rightarrow> 'p window" where
  "logEvent ev w = w\<lparr>trace := trace w @ [ev]\<rparr>"

definition setItem :: "string \<Rightarrow> string \<Rightarrow> 'p window \<Rightarrow> 'p outcome" where
  "setItem k v w =
     (let w' = logEvent (SetItem k v) w
      in case storageFault w (SetItem k v) of
           Some err \<Rightarrow> Inl (err, w')
         | None \<Rightarrow> Inr (w'\<lparr>sessionStorage := (sessionStorage w)(k := Some v)\<rparr>))"

definition getItem ::
  "string \<Rightarrow> 'p window \<Rightarrow> (error \<times> 'p window) + (string option \<times> 'p window)" where
  "getItem k w =
     (let w' = logEvent (GetItem k) w
      in case storageFault w (GetItem k) of
           Some err \<Rightarrow> Inl (err, w')
         | None \<Rightarrow> Inr (sessionStorage w k, w'))"

definition querySelector ::
  "string \<Rightarrow> 'p window \<Rightarrow> (error \<times> 'p window) + (element option \<times> 'p window)" where
  "querySelector sel w =
     (let w' = logEvent (QuerySelector sel) w
      in case query (document w) sel of
           Invalid \<Rightarrow> Inl (SyntaxError, w')
         | Null \<Rightarrow> Inr (None, w')
         | Found e \<Rightarrow> Inr (Some e, w'))"

definition querySelectorIn ::
  "element \<Rightarrow> string \<Rightarrow> 'p window \<Rightarrow> (error \<times> 'p window) + (element option \<times> 'p window)" where
  "querySelectorIn root sel w =
     (let w' = logEvent (QuerySelectorIn root sel) w
      in case queryWithin (document w) root sel of
           Invalid \<Rightarrow> Inl (SyntaxError, w')
         | Null \<Rightarrow> Inr (None, w')
         | Found e \<Rightarrow> Inr (Some e, w'))"

definition setViewTransitionName :: "element \<Rightarrow> string \<Rightarrow> 'p window \<Rightarrow> 'p window" where
  "setViewTransitionName e n w =
     logEvent (SetViewTransitionName e n)
       (w\<lparr>document :=
            (document w)\<lparr>viewTransitionName := (viewTransitionName (document w))(e := n)\<rparr>\<rparr>)"

section \<open>Helpers of the repository that are not among the sources\<close>

text \<open>
  Modelled from the spec: \<^verbatim>\<open>cleanUpTransition\<close> (imported from
  \<^verbatim>\<open>./clean-up-transition\<close>, file missing). The spec: "Clear any transition name left
  on DOM elements from the prior render pass (cleanup step, idempotent)."
\<close>

definition cleanUpTransition :: "'p window \<Rightarrow> 'p window" where
  "cleanUpTransition w =
     logEvent CleanUpTransition
       (w\<lparr>document := (document w)\<lparr>viewTransitionName := (\<lambda>_. [])\<rparr>\<rparr>)"

text \<open>
  Modelled from the spec: \<^verbatim>\<open>getElementSelector\<close> (imported from
  \<^verbatim>\<open>./get-element-selector\<close>, file missing). The spec: "Input: a DOM element reference
  (or null/absent). Output: a CSS selector string sufficient to uniquely re-locate that
  element after DOM re-render, or empty/undefined if no element was given." The strategy
  is an implementation choice, so the selector computed for an element is a field of the
  DOM snapshot.
\<close>

fun getElementSelector :: "document \<Rightarrow> element option \<Rightarrow> string option" where
  "getElementSelector d None = None"
| "getElementSelector d (Some e) = Some (selectorOf d e)"

section \<open>Route-change completion\<close>

definition storagePrefix :: string where
  "storagePrefix = ''__NRVT_view_transition_image_selector_''"

definition transitionImgName :: string where
  "transitionImgName = ''__NRVT_transition-img''"

text \<open>The key of line 14: previous key, a dash, the new key.\<close>

definition forwardKey :: "string option \<Rightarrow> string option \<Rightarrow> string" where
  "forwardKey prev routerKey = storagePrefix @ tmpl prev @ ''-'' @ tmpl routerKey"

text \<open>The \<^verbatim>\<open>backRouterKey\<close> of line 19 and the storage key built from it on lines 20 and 34.\<close>

definition backRouterKey :: "string option \<Rightarrow> string option \<Rightarrow> string" where
  "backRouterKey prev routerKey = tmpl routerKey @ ''-'' @ tmpl prev"

definition backwardKey :: "string option \<Rightarrow> string option \<Rightarrow> string" where
  "backwardKey prev routerKey = storagePrefix @ backRouterKey prev routerKey"

text \<open>The attribute selector of line 29, built from the pending marker.\<close>

definition markerSelector :: "'p window \<Rightarrow> string" where
  "markerSelector w =
     ''['' @ tmpl (NRVT_transitionAttributeName w) @ ''='' @ [CHR 0x22]
       @ tmpl (NRVT_transitionAttributeValue w) @ [CHR 0x22] @ '']''"

text \<open>Lines 9 and 10.\<close>

definition shiftRouterKeys :: "string option \<Rightarrow> 'p window \<Rightarrow> 'p window" where
  "shiftRouterKeys routerKey w =
     (let w1 = w\<lparr>NRVT_previousRouterKey := NRVT_routerKey w\<rparr>
      in w1\<lparr>NRVT_routerKey := routerKey\<rparr>)"

text \<open>Lines 13 to 17. When \<^verbatim>\<open>setItem\<close> throws, line 16 is not reached.\<close>

definition persistTransitionImgSelector :: "string option \<Rightarrow> 'p window \<Rightarrow> 'p outcome" where
  "persistTransitionImgSelector routerKey w =
     (if truthy (NRVT_transitionImgSelector w)
      then (case setItem (forwardKey (NRVT_previousRouterKey w) routerKey)
                   (tmpl (NRVT_transitionImgSelector w)) w of
              Inl err \<Rightarrow> Inl err
            | Inr w' \<Rightarrow> Inr (w'\<lparr>NRVT_transitionImgSelector := None\<rparr>))
      else Inr w)"

text \<open>Line 38.\<close>

definition clearAttributeValue :: "'p window \<Rightarrow> 'p window" where
  "clearAttributeValue w = w\<lparr>NRVT_transitionAttributeValue := None\<rparr>"

text \<open>Lines 9 to 21: the keys, the pending selector, and the backward lookup.\<close>

definition backwardLookupStep ::
  "string option \<Rightarrow> 'p window \<Rightarrow> (error \<times> 'p window) + (element option \<times> 'p window)" where
  "backwardLookupStep routerKey w0 =
     (case persistTransitionImgSelector routerKey (shiftRouterKeys routerKey w0) of
        Inl err \<Rightarrow> Inl err
      | Inr w3 \<Rightarrow>
          (case getItem (backwardKey (NRVT_previousRouterKey w3) routerKey) w3 of
             Inl err \<Rightarrow> Inl err
           | Inr (imgSelector, w4) \<Rightarrow>
               (if truthy imgSelector then querySelector (tmpl imgSelector) w4
                else Inr (None, w4))))"

text \<open>Lines 9 to 38, the part of the handler that runs when \<^verbatim>\<open>window\<close> exists.\<close>

definition routeChangeCompleteInWindow :: "string option \<Rightarrow> 'p window \<Rightarrow> 'p outcome" where
  "routeChangeCompleteInWindow routerKey w0 =
     (case backwardLookupStep routerKey w0 of
        Inl err \<Rightarrow> Inl err
      | Inr (img, w5) \<Rightarrow>
          (let bk = backwardKey (NRVT_previousRouterKey w5) routerKey;
               w6 = cleanUpTransition w5
           in case img of
                Some i \<Rightarrow>
                  Inr (clearAttributeValue (setViewTransitionName i transitionImgName w6))
              | None \<Rightarrow>
                  (case querySelector (markerSelector w6) w6 of
                     Inl err \<Rightarrow> Inl err
                   | Inr (None, w7) \<Rightarrow> Inr (clearAttributeValue w7)
                   | Inr (Some t, w7) \<Rightarrow>
                       (let sel = orEmpty (getElementSelector (document w7) (Some t));
                            w8 = setViewTransitionName t transitionImgName w7
                        in case setItem bk sel w8 of
                             Inl err \<Rightarrow> Inl err
                           | Inr w9 \<Rightarrow> Inr (clearAttributeValue w9)))))"

text \<open>
  \<^verbatim>\<open>handleRouteChangeComplete\<close>. Without a \<^verbatim>\<open>window\<close> (server-side rendering) the
  handler returns at once; the absent window is \<open>None\<close>.
\<close>

definition handleRouteChangeComplete ::
  "string option \<Rightarrow> 'p window option \<Rightarrow> (error \<times> 'p window) + 'p window option" where
  "handleRouteChangeComplete routerKey win =
     (case win of
        None \<Rightarrow> Inr None
      | Some w \<Rightarrow>
          (case routeChangeCompleteInWindow routerKey w of
             Inl err \<Rightarrow> Inl err
           | Inr w' \<Rightarrow> Inr (Some w')))"

text \<open>The window a run of the handler leaves behind, whether it returned or threw.\<close>

fun windowAfter :: "(error \<times> 'p window) + 'p window option \<Rightarrow> 'p window option" where
  "windowAfter (Inl (err, w)) = Some w"
| "windowAfter (Inr r) = r"

text \<open>The platform calls a run added to the trace.\<close>

definition newEvents :: "'p window \<Rightarrow> 'p window \<Rightarrow> event list" where
  "newEvents w w' = drop (length (trace w)) (trace w')"

subsection \<open>Vocabulary for the two lookups\<close>

text \<open>
  A lookup raises, misses or finds an element. The outcome of the backward lookup is
  that of lines 9 to 21 as a whole, as a function of the window the handler starts in:
  it raises when session storage throws on the write of line 14 or on the read of line
  20 or when \<^verbatim>\<open>querySelector\<close> rejects the stored selector; a missing or empty entry
  and a selector that resolves to nothing are misses. The window these lines leave
  behind is the one line 23 starts from, or the one the exception leaves.
\<close>

datatype lookup = Raises error | Misses | Finds element

definition backwardLookup :: "string option \<Rightarrow> 'p window \<Rightarrow> lookup" where
  "backwardLookup routerKey w =
     (case backwardLookupStep routerKey w of
        Inl (err, w') \<Rightarrow> Raises err
      | Inr (None, w') \<Rightarrow> Misses
      | Inr (Some e, w') \<Rightarrow> Finds e)"

definition afterBackwardLookup :: "string option \<Rightarrow> 'p window \<Rightarrow> 'p window" where
  "afterBackwardLookup routerKey w =
     (case backwardLookupStep routerKey w of
        Inl (err, w') \<Rightarrow> w'
      | Inr (img, w') \<Rightarrow> w')"


text \<open>
  The parts of the backward lookup: the exception, if any, with which the platform
  answers the write of line 14 (none when nothing is pending) and the read of line 20,
  and the entry under the backward key as line 20 reads it, the write of line 14 done.
\<close>

definition persistFault :: "string option \<Rightarrow> 'p window \<Rightarrow> error option" where
  "persistFault routerKey w =
     (if truthy (NRVT_transitionImgSelector w)
      then storageFault w (SetItem (forwardKey (NRVT_routerKey w) routerKey)
                             (tmpl (NRVT_transitionImgSelector w)))
      else None)"

definition readFault :: "string option \<Rightarrow> 'p window \<Rightarrow> error option" where
  "readFault routerKey w = storageFault w (GetItem (backwardKey (NRVT_routerKey w) routerKey))"

definition storedBackSelector :: "string option \<Rightarrow> 'p window \<Rightarrow> string option" where
  "storedBackSelector routerKey w =
     (if truthy (NRVT_transitionImgSelector w)
      then (sessionStorage w)
             (forwardKey (NRVT_routerKey w) routerKey
                := Some (tmpl (NRVT_transitionImgSelector w)))
      else sessionStorage w)
       (backwardKey (NRVT_routerKey w) routerKey)"

text \<open>
  The outcome of the marker lookup of line 29, if it is made, and the exception, if
  any, with which the platform answers the write of line 34 for a matched element.
\<close>

definition markerLookup :: "'p window \<Rightarrow> lookup" where
  "markerLookup w =
     (case query (document w) (markerSelector w) of
        Invalid \<Rightarrow> Raises SyntaxError
      | Null \<Rightarrow> Misses
      | Found e \<Rightarrow> Finds e)"

definition markerWriteFault :: "string option \<Rightarrow> 'p window \<Rightarrow> element \<Rightarrow> error option" where
  "markerWriteFault routerKey w t =
     storageFault w (SetItem (backwardKey (NRVT_routerKey w) routerKey)
                       (orEmpty (getElementSelector (document w) (Some t))))"

text \<open>
  The handler calls \<^verbatim>\<open>querySelector\<close> at most twice: on line 21, before
  \<^verbatim>\<open>cleanUpTransition\<close>, for the backward lookup, and on line 29, after it, for the
  marker. So a run made the marker lookup when its part of the trace has a
  \<open>QuerySelector\<close> event after the \<open>CleanUpTransition\<close> event; likewise the write of
  line 14 is a \<open>SetItem\<close> event before the \<open>GetItem\<close> event, and the write of line 34
  is one after it.
\<close>

fun isQuerySelector :: "event \<Rightarrow> bool" where
  "isQuerySelector (QuerySelector s) = True"
| "isQuerySelector ev = False"

fun isSetItem :: "event \<Rightarrow> bool" where
  "isSetItem (SetItem k v) = True"
| "isSetItem ev = False"

fun isGetItem :: "event \<Rightarrow> bool" where
  "isGetItem (GetItem k) = True"
| "isGetItem ev = False"

fun isSetViewTransitionName :: "event \<Rightarrow> bool" where
  "isSetViewTransitionName (SetViewTransitionName e n) = True"
| "isSetViewTransitionName ev = False"

definition markerLookupMade :: "event list \<Rightarrow> bool" where
  "markerLookupMade evs =
     list_ex isQuerySelector (dropWhile (\<lambda>ev. ev \<noteq> CleanUpTransition) evs)"

section \<open>Link activation\<close>

text \<open>
  Modelled from the spec: \<^verbatim>\<open>setPlaceholderData\<close> (imported from
  \<^verbatim>\<open>~/singletones/placeholderData\<close>, file missing). The spec: "store any supplied
  placeholder data into the placeholder cache (overwriting prior value)", a "single
  current slot, last-write-wins".
\<close>

definition setPlaceholderData :: "'p option \<Rightarrow> 'p window \<Rightarrow> 'p window" where
  "setPlaceholderData d w = w\<lparr>placeholderData := d\<rparr>"

record transition =
  fromElement :: "element option"
  toAttributeName :: string
  toAttributeValue :: string
  transitionName :: string

text \<open>
  Modelled from the spec: the registry operation that stores the pending transition
  target, which \<^verbatim>\<open>handleTransitionStarted\<close> performs and whose code is missing. The
  spec: the registry keeps one pending marker,
  "\<^verbatim>\<open>markPendingTransitionTarget(attributeName, attributeValue)\<close> stores the marker"; on
  link activation, "if found, compute the image's current resource path and register it
  as the pending transition target's attribute value"; "Missing transitionable image on
  click: no marker is set"; two activations "leave exactly the second activation's
  placeholder data and marker in effect"; and the selector persisted on completion is
  the one "recorded during the just-finished navigation's forward leg", computed by the
  selector resolver, which yields nothing when no element is given. So an activation
  overwrites the single pending slot with its own target: the marker and the selector of
  the image it found, or nothing when it found none.
\<close>

definition markPendingTransitionTarget :: "transition \<Rightarrow> 'p window \<Rightarrow> 'p window" where
  "markPendingTransitionTarget t w =
     (case fromElement t of
        None \<Rightarrow>
          w\<lparr>NRVT_transitionImgSelector := None,
            NRVT_transitionAttributeName := None,
            NRVT_transitionAttributeValue := None\<rparr>
      | Some e \<Rightarrow>
          w\<lparr>NRVT_transitionImgSelector := getElementSelector (document w) (Some e),
            NRVT_transitionAttributeName := Some (toAttributeName t),
            NRVT_transitionAttributeValue := Some (toAttributeValue t)\<rparr>)"

text \<open>
  Modelled from the spec: \<^verbatim>\<open>handleTransitionStarted\<close> (imported from
  \<^verbatim>\<open>~/view-transition-name-handler\<close>, file missing). It is called with the router key
  and a list of transitions and registers each of them in turn. The spec gives the key
  and the transition name passed by the caller no role.
\<close>

definition handleTransitionStarted ::
  "string \<Rightarrow> transition list \<Rightarrow> 'p window \<Rightarrow> 'p window" where
  "handleTransitionStarted key ts w = fold markPendingTransitionTarget ts w"

text \<open>
  A click on a \<^verbatim>\<open>Link\<close>: whether the consumer supplied an \<^verbatim>\<open>onClick\<close>, the
  \<^verbatim>\<open>placeholderData\<close> prop, the anchor element (\<^verbatim>\<open>e.currentTarget\<close>) and the router's
  \<^verbatim>\<open>location.state.key\<close>. The consumer's callback is foreign code; its call is recorded
  in the trace and it is taken not to touch the window state modelled here.

  \<^verbatim>\<open>handleClick\<close> is the click handler of the \<^verbatim>\<open>Link\<close> component, lines 93 to 110. (A
  second copy of the component among the sources differs only in the shape of its call
  of \<^verbatim>\<open>handleTransitionStarted\<close>: one record with the element, the attribute name and
  the attribute value.)
\<close>

record 'p click =
  hasOnClick :: bool
  linkPlaceholderData :: "'p option"
  currentTarget :: element
  routerStateKey :: "string option"

definition handleClick :: "'p click \<Rightarrow> 'p window \<Rightarrow> 'p outcome" where
  "handleClick c w0 =
     (let w1 = (if hasOnClick c then logEvent OnClick w0 else w0);
          w2 = setPlaceholderData (linkPlaceholderData c) w1
      in case querySelectorIn (currentTarget c) ''.transitionable-img'' w2 of
           Inl err \<Rightarrow> Inl err
         | Inr (inLink, w3) \<Rightarrow>
             (case (case inLink of
                      Some e \<Rightarrow> Inr (Some e, w3)
                    | None \<Rightarrow> querySelector ''#transition-img'' w3) of
                Inl err \<Rightarrow> Inl err
              | Inr (transitionImg, w4) \<Rightarrow>
                  (let srcv = (case transitionImg of
                                 Some e \<Rightarrow> removeFirst (origin w4) (src (document w4) e)
                               | None \<Rightarrow> []);
                       key = (case routerStateKey c of Some k \<Rightarrow> k | None \<Rightarrow> ''initial'')
                   in Inr (handleTransitionStarted key
                             [\<lparr>fromElement = transitionImg, toAttributeName = ''src'',
                               toAttributeValue = srcv, transitionName = ''transition-name''\<rparr>]
                             w4))))"

text \<open>
  Between a click and the completion of its navigation the router renders the
  destination page: the DOM snapshot is replaced, the window globals and the session
  storage stay.
\<close>

definition renderPage :: "document \<Rightarrow> 'p window \<Rightarrow> 'p window" where
  "renderPage d w = w\<lparr>document := d\<rparr>"

section \<open>Observations and example pages\<close>

text \<open>What a run of the handler threw, stored and named, read off its outcome.\<close>

fun thrownBy :: "(error \<times> 'p window) + 'p window option \<Rightarrow> error option" where
  "thrownBy (Inl (err, w)) = Some err"
| "thrownBy (Inr r) = None"

fun tracedBy :: "(error \<times> 'p window) + 'p window option \<Rightarrow> event list" where
  "tracedBy (Inl (err, w)) = trace w"
| "tracedBy (Inr (Some w)) = trace w"
| "tracedBy (Inr None) = []"

fun storedAfter :: "(error \<times> 'p window) + 'p window option \<Rightarrow> string \<Rightarrow> string option" where
  "storedAfter (Inl (err, w)) k = sessionStorage w k"
| "storedAfter (Inr (Some w)) k = sessionStorage w k"
| "storedAfter (Inr None) k = None"

fun nameAfter :: "(error \<times> 'p window) + 'p window option \<Rightarrow> element \<Rightarrow> string" where
  "nameAfter (Inl (err, w)) e = viewTransitionName (document w) e"
| "nameAfter (Inr (Some w)) e = viewTransitionName (document w) e"
| "nameAfter (Inr None) e = []"

text \<open>The image a click on a link finds (line 101 of the link component), if any.\<close>

definition foundTransitionImg :: "document \<Rightarrow> element \<Rightarrow> element option" where
  "foundTransitionImg d link =
     (case queryWithin d link ''.transitionable-img'' of
        Found e \<Rightarrow> Some e
      | Null \<Rightarrow> (case query d ''#transition-img'' of Found e \<Rightarrow> Some e | _ \<Rightarrow> None)
      | Invalid \<Rightarrow> None)"

text \<open>
  Page A lists articles: link 10 wraps image 1, link 12 wraps image 3, link 11 wraps no
  image. Page B shows image 2, the same picture as image 1, as its hero.
\<close>

definition srcSelectorA :: string where
  "srcSelectorA = ''[src='' @ [CHR 0x22] @ ''/img/a.png'' @ [CHR 0x22] @ '']''"

definition pageA :: document where
  "pageA =
     \<lparr>query = (\<lambda>s. if s = ''#thumb-a'' then Found 1
                    else if s = ''#thumb-c'' then Found 3 else Null),
      queryWithin = (\<lambda>root s. if s = ''.transitionable-img''
                               then (if root = 10 then Found 1
                                     else if root = 12 then Found 3 else Null)
                               else Null),
      src = (\<lambda>e. if e = 1 then ''https://site.test/img/a.png''
                  else if e = 3 then ''https://site.test/img/c.png'' else []),
      selectorOf = (\<lambda>e. if e = 1 then ''#thumb-a'' else if e = 3 then ''#thumb-c'' else []),
      viewTransitionName = (\<lambda>e. [])\<rparr>"

definition pageB :: document where
  "pageB =
     \<lparr>query = (\<lambda>s. if s = srcSelectorA \<or> s = ''#hero'' then Found 2 else Null),
      queryWithin = (\<lambda>root s. Null),
      src = (\<lambda>e. if e = 2 then ''https://site.test/img/a.png'' else []),
      selectorOf = (\<lambda>e. if e = 2 then ''#hero'' else []),
      viewTransitionName = (\<lambda>e. [])\<rparr>"

text \<open>On page A, history entry \<open>r1\<close>, nothing pending.\<close>

definition windowAtA :: "string window" where
  "windowAtA =
     \<lparr>NRVT_routerKey = Some ''r1'', NRVT_previousRouterKey = None,
      NRVT_transitionImgSelector = None, NRVT_transitionAttributeName = None,
      NRVT_transitionAttributeValue = None, sessionStorage = (\<lambda>k. None),
      storageFault = (\<lambda>ev. None),
      document = pageA, origin = ''https://site.test'', placeholderData = None,
      trace = []\<rparr>"

text \<open>Link 10 was clicked on page A and page B has been rendered; completion is due.\<close>

definition windowArrivingAtB :: "string window" where
  "windowArrivingAtB =
     \<lparr>NRVT_routerKey = Some ''r1'', NRVT_previousRouterKey = None,
      NRVT_transitionImgSelector = Some ''#thumb-a'',
      NRVT_transitionAttributeName = Some ''src'',
      NRVT_transitionAttributeValue = Some ''/img/a.png'', sessionStorage = (\<lambda>k. None),
      storageFault = (\<lambda>ev. None),
      document = pageB, origin = ''https://site.test'', placeholderData = Some ''article 1'',
      trace = []\<rparr>"

text \<open>
  The same arrival with session storage full: the platform answers every
  \<^verbatim>\<open>setItem\<close> with a \<^verbatim>\<open>QuotaExceededError\<close>.
\<close>

definition windowStorageFull :: "string window" where
  "windowStorageFull =
     windowArrivingAtB
       \<lparr>storageFault := (\<lambda>ev. if isSetItem ev then Some QuotaExceededError else None)\<rparr>"

text \<open>
  The navigation from \<open>r1\<close> to \<open>r2\<close> has completed, the user has gone back and page A
  has been rendered again; completion with key \<open>r1\<close> is due.
\<close>

definition windowBackAtA :: "string window" where
  "windowBackAtA =
     \<lparr>NRVT_routerKey = Some ''r2'', NRVT_previousRouterKey = Some ''r1'',
      NRVT_transitionImgSelector = None, NRVT_transitionAttributeName = Some ''src'',
      NRVT_transitionAttributeValue = None,
      sessionStorage =
        (\<lambda>k. if k = ''__NRVT_view_transition_image_selector_r1-r2'' then Some ''#thumb-a''
             else if k = ''__NRVT_view_transition_image_selector_r2-r1'' then Some ''#hero''
             else None),
      storageFault = (\<lambda>ev. None),
      document = pageA, origin = ''https://site.test'', placeholderData = Some ''article 1'',
      trace = []\<rparr>"




text \<open>
  Two scenarios. A click on a link, the destination page rendered, and the completion of
  that navigation with the key the router hands over. And the round trip: the same,
  followed by the rendering of the first page again and a completion under the key the
  window started with. A run that threw leaves its window behind, and the next step
  starts from it.
\<close>

definition clickThenComplete ::
  "'p click \<Rightarrow> string option \<Rightarrow> document \<Rightarrow> 'p window
     \<Rightarrow> (error \<times> 'p window) + 'p window option" where
  "clickThenComplete c routerKey d w =
     (case handleClick c w of
        Inl err \<Rightarrow> Inl err
      | Inr w1 \<Rightarrow> handleRouteChangeComplete routerKey (Some (renderPage d w1)))"

definition forwardThenBack ::
  "'p click \<Rightarrow> string option \<Rightarrow> document \<Rightarrow> document \<Rightarrow> 'p window
     \<Rightarrow> (error \<times> 'p window) + 'p window option" where
  "forwardThenBack c routerKey d dBack w =
     (case windowAfter (clickThenComplete c routerKey d w) of
        None \<Rightarrow> Inr None
      | Some w2 \<Rightarrow> handleRouteChangeComplete (NRVT_routerKey w) (Some (renderPage dBack w2)))"

text \<open>Clicks on the links of page A; the router state carries the key \<open>r1\<close>.\<close>

definition clickLink :: "element \<Rightarrow> string \<Rightarrow> string click" where
  "clickLink link pd =
     \<lparr>hasOnClick = False, linkPlaceholderData = Some pd, currentTarget = link,
      routerStateKey = Some ''r1''\<rparr>"

text \<open>
  Back on page A under key \<open>r1\<close> after a visit to \<open>r2\<close>: both directions of the pair
  have their entry in session storage.
\<close>

definition windowReturnedToA :: "string window" where
  "windowReturnedToA =
     \<lparr>NRVT_routerKey = Some ''r1'', NRVT_previousRouterKey = Some ''r2'',
      NRVT_transitionImgSelector = None, NRVT_transitionAttributeName = Some ''src'',
      NRVT_transitionAttributeValue = None,
      sessionStorage =
        (\<lambda>k. if k = ''__NRVT_view_transition_image_selector_r1-r2'' then Some ''#thumb-a''
             else if k = ''__NRVT_view_transition_image_selector_r2-r1'' then Some ''#hero''
             else None),
      storageFault = (\<lambda>ev. None),
      document = pageA, origin = ''https://site.test'', placeholderData = Some ''article 1'',
      trace = []\<rparr>"

section \<open>Mock article list\<close>

text \<open>
  \<^verbatim>\<open>getMockArticleList\<close> reads the table \<^verbatim>\<open>public/mock.json\<close>, which is not among the
  sources, so the table is a parameter. An entry has its \<^verbatim>\<open>attributes\<close> and any other
  top-level fields (\<open>rest\<close>); the attributes of a table entry may hold more than the six
  fields the function copies (\<open>otherAttributes\<close>).

  \<^verbatim>\<open>origId\<close> is a JavaScript number. The model covers the non-negative safe integers
  (below \<open>2 ^ 53\<close>): on them \<^verbatim>\<open>%\<close> is \<open>mod\<close> and the template literal prints the
  decimal numeral. Indexing the table out of range yields \<^verbatim>\<open>undefined\<close>, and reading
  \<^verbatim>\<open>.attributes\<close> of it throws a \<^verbatim>\<open>TypeError\<close>.
\<close>

record ('h, 'c, 't) articleListItem =
  description :: string
  headings :: 'h
  previewContent :: 'c
  thumbnail :: 't
  slug :: string
  title :: string

record ('h, 'c, 't, 'x) mockAttributes = "('h, 'c, 't) articleListItem" +
  otherAttributes :: 'x

record ('a, 'r) apiResponseData =
  attributes :: 'a
  rest :: 'r

fun numberToString :: "nat \<Rightarrow> string" where
  "numberToString n =
     (if n < 10 then [''0123456789'' ! n]
      else numberToString (n div 10) @ [''0123456789'' ! (n mod 10)])"

declare numberToString.simps [simp del]

definition getMockArticleList ::
  "(('h, 'c, 't, 'x) mockAttributes, 'r) apiResponseData list \<Rightarrow> nat
     \<Rightarrow> error + (('h, 'c, 't) articleListItem, 'r) apiResponseData" where
  "getMockArticleList articlesList origId =
     (let ident = origId mod 20
      in if ident < length articlesList
         then (let articleAttributes = attributes (articlesList ! ident);
                   title' = ''Lorem ipsum '' @ numberToString origId;
                   slug' = ''lorem-ipsum-'' @ numberToString origId
               in Inr \<lparr>attributes =
                         \<lparr>description = description articleAttributes,
                          headings = headings articleAttributes,
                          previewContent = previewContent articleAttributes,
                          thumbnail = thumbnail articleAttributes,
                          slug = slug',
                          title = title'\<rparr>,
                       rest = rest (articlesList ! ident)\<rparr>)
         else Inl TypeError)"

text \<open>A table of twenty entries for the examples: entry \<open>i\<close> is described by \<open>i\<close>.\<close>

definition mockEntry :: "nat \<Rightarrow> ((nat, nat, nat, nat) mockAttributes, nat) apiResponseData" where
  "mockEntry i =
     \<lparr>attributes =
        \<lparr>description = ''description '' @ numberToString i, headings = i,
         previewContent = 100 + i, thumbnail = 200 + i, slug = ''old-slug'',
         title = ''old title'', otherAttributes = 300 + i\<rparr>,
      rest = 400 + i\<rparr>"

definition mockTable :: "((nat, nat, nat, nat) mockAttributes, nat) apiResponseData list" where
  "mockTable = map mockEntry [0..<20]"

section \<open>Properties\<close>

subsection \<open>Storage keys\<close>

lemma takeWhile_dash:
  "CHR ''-'' \<notin> set p \<Longrightarrow> takeWhile (\<lambda>c. c \<noteq> CHR ''-'') (p @ ''-'' @ q) = p"
  by (induction p) auto

lemma dash_joined_eq:
  assumes "CHR ''-'' \<notin> set p" and "CHR ''-'' \<notin> set c"
  shows "(p @ ''-'' @ c = c @ ''-'' @ p) = (p = c)"
proof
  assume eq: "p @ ''-'' @ c = c @ ''-'' @ p"
  have "p = takeWhile (\<lambda>x. x \<noteq> CHR ''-'') (p @ ''-'' @ c)"
    using assms(1) by (rule takeWhile_dash [symmetric])
  also have "\<dots> = takeWhile (\<lambda>x. x \<noteq> CHR ''-'') (c @ ''-'' @ p)"
    by (simp only: eq)
  also have "\<dots> = c"
    using assms(2) by (rule takeWhile_dash)
  finally show "p = c" .
next
  assume "p = c"
  then show "p @ ''-'' @ c = c @ ''-'' @ p" by simp
qed

text \<open>
  C6 (the claim as stated fails). The forward key of a navigation from a key to itself is
  its own backward key, and two different keys can collide as well when one of them
  contains a dash.
\<close>

theorem C6_keys_collide:
  "forwardKey (Some ''r1'') (Some ''r1'') = backwardKey (Some ''r1'') (Some ''r1'')
   \<and> Some ''a-a'' \<noteq> Some ''a''
   \<and> forwardKey (Some ''a-a'') (Some ''a'') = backwardKey (Some ''a-a'') (Some ''a'')"
  by (simp add: forwardKey_def backwardKey_def backRouterKey_def)

text \<open>
  C6 (amended). For router keys whose rendered text contains no dash, the forward key
  \<open>prev-curr\<close> and the backward key \<open>curr-prev\<close> are the same storage key exactly when
  the two keys render to the same text; so for two such keys that differ, a forward-leg
  store and a backward-leg read never address the same entry.
\<close>

theorem C6_keys_distinct:
  assumes "CHR ''-'' \<notin> set (tmpl prevKey)" and "CHR ''-'' \<notin> set (tmpl currKey)"
  shows "(forwardKey prevKey currKey = backwardKey prevKey currKey) = (tmpl prevKey = tmpl currKey)"
  using dash_joined_eq [OF assms]
  by (simp add: forwardKey_def backwardKey_def backRouterKey_def)

theorem C6_keys_distinct_witness:
  "CHR ''-'' \<notin> set (tmpl (Some ''r1'')) \<and> CHR ''-'' \<notin> set (tmpl (Some ''r2''))
   \<and> forwardKey (Some ''r1'') (Some ''r2'') \<noteq> backwardKey (Some ''r1'') (Some ''r2'')"
  using C6_keys_distinct [of "Some ''r1''" "Some ''r2''"]
  by simp

subsection \<open>Mock article list\<close>

lemma numberToString_digit: "n < 10 \<Longrightarrow> numberToString n = [''0123456789'' ! n]"
  by (simp add: numberToString.simps)

lemma numberToString_step:
  "\<not> n < 10 \<Longrightarrow>
     numberToString n = numberToString (n div 10) @ [''0123456789'' ! (n mod 10)]"
  by (subst numberToString.simps) simp

lemma mockTable_nth: "i < 20 \<Longrightarrow> mockTable ! i = mockEntry i"
  by (simp add: mockTable_def)

text \<open>
  C10. For every non-negative (safe) integer \<open>origId\<close> whose index \<open>origId mod 20\<close> is in
  the table, \<open>getMockArticleList\<close> returns the entry at that index with its attributes
  replaced: title \<open>Lorem ipsum origId\<close>, slug \<open>lorem-ipsum-origId\<close>, and description,
  headings, previewContent and thumbnail taken unchanged from the entry. Hence two inputs
  congruent modulo 20 give results that agree in everything but title and slug.
\<close>

theorem C10_getMockArticleList:
  assumes "origId < 2 ^ 53" and "origId mod 20 < length articlesList"
  shows "\<exists>r. getMockArticleList articlesList origId = Inr r
     \<and> title (attributes r) = ''Lorem ipsum '' @ numberToString origId
     \<and> slug (attributes r) = ''lorem-ipsum-'' @ numberToString origId
     \<and> description (attributes r) = description (attributes (articlesList ! (origId mod 20)))
     \<and> headings (attributes r) = headings (attributes (articlesList ! (origId mod 20)))
     \<and> previewContent (attributes r)
         = previewContent (attributes (articlesList ! (origId mod 20)))
     \<and> thumbnail (attributes r) = thumbnail (attributes (articlesList ! (origId mod 20)))
     \<and> rest r = rest (articlesList ! (origId mod 20))
     \<and> (\<forall>other. other < 2 ^ 53 \<and> other mod 20 = origId mod 20 \<longrightarrow>
          (\<exists>r'. getMockArticleList articlesList other = Inr r'
             \<and> r'\<lparr>attributes := (attributes r')\<lparr>slug := slug (attributes r),
                                                   title := title (attributes r)\<rparr>\<rparr> = r))"
  using assms(2) by (simp add: getMockArticleList_def Let_def)

theorem C10_getMockArticleList_witness:
  "(47::nat) < 2 ^ 53 \<and> 47 mod 20 < length mockTable
   \<and> (7::nat) < 2 ^ 53 \<and> (7::nat) mod 20 = 47 mod 20
   \<and> getMockArticleList mockTable 47 =
       Inr \<lparr>attributes =
              \<lparr>description = ''description 7'', headings = 7, previewContent = 107,
               thumbnail = 207, slug = ''lorem-ipsum-47'', title = ''Lorem ipsum 47''\<rparr>,
            rest = 407\<rparr>
   \<and> getMockArticleList mockTable 7 =
       Inr \<lparr>attributes =
              \<lparr>description = ''description 7'', headings = 7, previewContent = 107,
               thumbnail = 207, slug = ''lorem-ipsum-7'', title = ''Lorem ipsum 7''\<rparr>,
            rest = 407\<rparr>"
  using C10_getMockArticleList [of 47 mockTable]
  by (simp add: getMockArticleList_def mockTable_nth mockTable_def mockEntry_def
        numberToString_digit numberToString_step Let_def)

subsection \<open>The cases of a route completion\<close>

lemmas step_defs = backwardLookupStep_def persistTransitionImgSelector_def shiftRouterKeys_def
  setItem_def getItem_def querySelector_def logEvent_def persistFault_def readFault_def
  storedBackSelector_def

lemma backwardLookup_parts:
  "backwardLookup rk w =
     (case persistFault rk w of
        Some err \<Rightarrow> Raises err
      | None \<Rightarrow>
          (case readFault rk w of
             Some err \<Rightarrow> Raises err
           | None \<Rightarrow>
               (if truthy (storedBackSelector rk w)
                then (case query (document w) (tmpl (storedBackSelector rk w)) of
                        Invalid \<Rightarrow> Raises SyntaxError
                      | Null \<Rightarrow> Misses
                      | Found e \<Rightarrow> Finds e)
                else Misses)))"
  by (simp add: backwardLookup_def step_defs Let_def
      split: option.splits qresult.splits)

text \<open>What the first half of a run leaves in each part of the window.\<close>

lemma trace_afterBackwardLookup:
  "trace (afterBackwardLookup rk w) =
     trace w
     @ (if truthy (NRVT_transitionImgSelector w)
        then [SetItem (forwardKey (NRVT_routerKey w) rk) (tmpl (NRVT_transitionImgSelector w))]
        else [])
     @ (if persistFault rk w = None
        then GetItem (backwardKey (NRVT_routerKey w) rk)
             # (if readFault rk w = None \<and> truthy (storedBackSelector rk w)
                then [QuerySelector (tmpl (storedBackSelector rk w))] else [])
        else [])"
  by (simp add: afterBackwardLookup_def step_defs Let_def
      split: option.splits qresult.splits)

lemma storage_afterBackwardLookup:
  "sessionStorage (afterBackwardLookup rk w) =
     (if truthy (NRVT_transitionImgSelector w) \<and> persistFault rk w = None
      then (sessionStorage w)
             (forwardKey (NRVT_routerKey w) rk := Some (tmpl (NRVT_transitionImgSelector w)))
      else sessionStorage w)"
  by (simp add: afterBackwardLookup_def step_defs Let_def
      split: option.splits qresult.splits)

lemma slot_afterBackwardLookup:
  "NRVT_transitionImgSelector (afterBackwardLookup rk w) =
     (if truthy (NRVT_transitionImgSelector w) \<and> persistFault rk w = None then None
      else NRVT_transitionImgSelector w)"
  by (simp add: afterBackwardLookup_def step_defs Let_def
      split: option.splits qresult.splits)

lemma fields_afterBackwardLookup:
  "NRVT_routerKey (afterBackwardLookup rk w) = rk"
  "NRVT_previousRouterKey (afterBackwardLookup rk w) = NRVT_routerKey w"
  "NRVT_transitionAttributeName (afterBackwardLookup rk w) = NRVT_transitionAttributeName w"
  "NRVT_transitionAttributeValue (afterBackwardLookup rk w) = NRVT_transitionAttributeValue w"
  "document (afterBackwardLookup rk w) = document w"
  "storageFault (afterBackwardLookup rk w) = storageFault w"
  "origin (afterBackwardLookup rk w) = origin w"
  "placeholderData (afterBackwardLookup rk w) = placeholderData w"
  by (simp_all add: afterBackwardLookup_def step_defs Let_def
      split: option.splits qresult.splits)

lemmas after_lookup =
  trace_afterBackwardLookup storage_afterBackwardLookup slot_afterBackwardLookup
  fields_afterBackwardLookup

lemmas later_defs = logEvent_def setViewTransitionName_def cleanUpTransition_def
  clearAttributeValue_def

lemma complete_backward_Raises:
  "backwardLookup rk w = Raises err \<Longrightarrow>
   routeChangeCompleteInWindow rk w = Inl (err, afterBackwardLookup rk w)"
  by (auto simp: routeChangeCompleteInWindow_def backwardLookup_def afterBackwardLookup_def
      split: sum.splits prod.splits option.splits)

lemma complete_backward_Finds:
  "backwardLookup rk w = Finds e \<Longrightarrow>
   routeChangeCompleteInWindow rk w =
     Inr (clearAttributeValue (setViewTransitionName e transitionImgName
            (cleanUpTransition (afterBackwardLookup rk w))))"
  by (auto simp: routeChangeCompleteInWindow_def backwardLookup_def afterBackwardLookup_def
      Let_def split: sum.splits prod.splits option.splits)

lemma complete_backward_Misses:
  "backwardLookup rk w = Misses \<Longrightarrow>
   routeChangeCompleteInWindow rk w =
     (case querySelector (markerSelector (cleanUpTransition (afterBackwardLookup rk w)))
             (cleanUpTransition (afterBackwardLookup rk w)) of
        Inl err \<Rightarrow> Inl err
      | Inr (None, w7) \<Rightarrow> Inr (clearAttributeValue w7)
      | Inr (Some t, w7) \<Rightarrow>
          (case setItem (backwardKey (NRVT_previousRouterKey (afterBackwardLookup rk w)) rk)
                  (orEmpty (getElementSelector (document w7) (Some t)))
                  (setViewTransitionName t transitionImgName w7) of
             Inl err \<Rightarrow> Inl err
           | Inr w9 \<Rightarrow> Inr (clearAttributeValue w9)))"
  by (auto simp: routeChangeCompleteInWindow_def backwardLookup_def afterBackwardLookup_def
      Let_def split: sum.splits prod.splits option.splits)

lemma marker_after_lookup:
  "markerSelector (cleanUpTransition (afterBackwardLookup rk w)) = markerSelector w"
  by (simp add: markerSelector_def cleanUpTransition_def logEvent_def fields_afterBackwardLookup)

lemma complete_marker_Raises:
  "backwardLookup rk w = Misses \<Longrightarrow> markerLookup w = Raises err \<Longrightarrow>
   routeChangeCompleteInWindow rk w =
     Inl (err, logEvent (QuerySelector (markerSelector w))
            (cleanUpTransition (afterBackwardLookup rk w)))"
  by (simp add: complete_backward_Misses marker_after_lookup querySelector_def Let_def)
     (simp add: markerLookup_def cleanUpTransition_def logEvent_def fields_afterBackwardLookup
      split: qresult.splits)

lemma complete_marker_Misses:
  "backwardLookup rk w = Misses \<Longrightarrow> markerLookup w = Misses \<Longrightarrow>
   routeChangeCompleteInWindow rk w =
     Inr (clearAttributeValue (logEvent (QuerySelector (markerSelector w))
            (cleanUpTransition (afterBackwardLookup rk w))))"
  by (simp add: complete_backward_Misses marker_after_lookup querySelector_def Let_def)
     (simp add: markerLookup_def cleanUpTransition_def logEvent_def fields_afterBackwardLookup
      split: qresult.splits)

lemma complete_marker_Finds_rejected:
  "backwardLookup rk w = Misses \<Longrightarrow> markerLookup w = Finds t \<Longrightarrow>
   markerWriteFault rk w t = Some err \<Longrightarrow>
   routeChangeCompleteInWindow rk w =
     Inl (err,
          logEvent (SetItem (backwardKey (NRVT_routerKey w) rk) (selectorOf (document w) t))
            (setViewTransitionName t transitionImgName
               (logEvent (QuerySelector (markerSelector w))
                  (cleanUpTransition (afterBackwardLookup rk w)))))"
  by (simp add: complete_backward_Misses marker_after_lookup querySelector_def Let_def)
     (simp add: markerLookup_def markerWriteFault_def cleanUpTransition_def logEvent_def
      setViewTransitionName_def setItem_def fields_afterBackwardLookup Let_def
      split: qresult.splits)

lemma complete_marker_Finds_stored:
  "backwardLookup rk w = Misses \<Longrightarrow> markerLookup w = Finds t \<Longrightarrow>
   markerWriteFault rk w t = None \<Longrightarrow>
   routeChangeCompleteInWindow rk w =
     Inr (clearAttributeValue
            ((logEvent (SetItem (backwardKey (NRVT_routerKey w) rk) (selectorOf (document w) t))
                (setViewTransitionName t transitionImgName
                   (logEvent (QuerySelector (markerSelector w))
                      (cleanUpTransition (afterBackwardLookup rk w)))))
             \<lparr>sessionStorage :=
                 (sessionStorage (afterBackwardLookup rk w))
                   (backwardKey (NRVT_routerKey w) rk := Some (selectorOf (document w) t))\<rparr>))"
  by (simp add: complete_backward_Misses marker_after_lookup querySelector_def Let_def)
     (simp add: markerLookup_def markerWriteFault_def cleanUpTransition_def logEvent_def
      setViewTransitionName_def setItem_def fields_afterBackwardLookup Let_def
      split: qresult.splits)

lemma handle_Some:
  "handleRouteChangeComplete rk (Some w) =
     (case routeChangeCompleteInWindow rk w of Inl err \<Rightarrow> Inl err | Inr w' \<Rightarrow> Inr (Some w'))"
  by (simp add: handleRouteChangeComplete_def)

lemma lookup_without_fault:
  "backwardLookup rk w = Misses \<Longrightarrow> persistFault rk w = None \<and> readFault rk w = None"
  "backwardLookup rk w = Finds e \<Longrightarrow> persistFault rk w = None \<and> readFault rk w = None"
  by (auto simp: backwardLookup_parts split: option.splits if_splits qresult.splits)

lemmas example_lookup = backwardLookup_parts persistFault_def readFault_def
  storedBackSelector_def markerLookup_def markerSelector_def markerWriteFault_def
  forwardKey_def backwardKey_def backRouterKey_def storagePrefix_def

lemma arriving_back: "backwardLookup (Some ''r2'') windowArrivingAtB = Misses"
  by (simp add: example_lookup windowArrivingAtB_def pageB_def srcSelectorA_def)

lemma arriving_marker: "markerLookup windowArrivingAtB = Finds 2"
  by (simp add: example_lookup windowArrivingAtB_def pageB_def srcSelectorA_def)

lemma arriving_write: "markerWriteFault (Some ''r2'') windowArrivingAtB 2 = None"
  by (simp add: example_lookup windowArrivingAtB_def)

lemma back_at_A: "backwardLookup (Some ''r1'') windowBackAtA = Finds 1"
  by (simp add: example_lookup windowBackAtA_def pageA_def)



lemma full_back: "backwardLookup (Some ''r2'') windowStorageFull = Raises QuotaExceededError"
  by (simp add: example_lookup windowStorageFull_def windowArrivingAtB_def)

subsection \<open>The backward lookup comes first\<close>

text \<open>
  C3 (the claim as stated fails). Arriving at page B with a selector pending and session
  storage full, the write of line 14 throws a \<^verbatim>\<open>QuotaExceededError\<close>, which the
  handler does not catch: the run ends there, and session storage is never read under
  the backward key.
\<close>

theorem C3_rejected_write_skips_read:
  "truthy (NRVT_transitionImgSelector windowStorageFull)
   \<and> thrownBy (handleRouteChangeComplete (Some ''r2'') (Some windowStorageFull))
        = Some QuotaExceededError
   \<and> tracedBy (handleRouteChangeComplete (Some ''r2'') (Some windowStorageFull))
        = [SetItem ''__NRVT_view_transition_image_selector_r1-r2'' ''#thumb-a'']"
  by (simp add: handle_Some complete_backward_Raises [OF full_back] after_lookup)
     (simp add: windowStorageFull_def windowArrivingAtB_def persistFault_def forwardKey_def
      storagePrefix_def)

text \<open>
  C3 (amended). Every route completion in a window shifts the keys and, unless the write
  of a pending selector on line 14 is refused by session storage, computes the backward
  key as \<open>curr-prev\<close> and reads session storage under it. With no exception from
  storage, the backward lookup finds an element exactly when the entry read is a
  non-empty selector that resolves to it. If it finds one, the run returns with exactly
  that element carrying the transition name \<open>__NRVT_transition-img\<close> and without having
  made the marker lookup; the marker lookup is made exactly when the backward lookup
  raises nothing and yields no live element.
\<close>

theorem C3_backward_lookup:
  "\<exists>w'. windowAfter (handleRouteChangeComplete rk (Some w)) = Some w'
     \<and> NRVT_routerKey w' = rk \<and> NRVT_previousRouterKey w' = NRVT_routerKey w
     \<and> (persistFault rk w = None \<longrightarrow>
          GetItem (storagePrefix @ tmpl rk @ ''-'' @ tmpl (NRVT_routerKey w))
            \<in> set (newEvents w w'))
     \<and> (persistFault rk w = None \<and> readFault rk w = None \<longrightarrow>
          (\<forall>e. (backwardLookup rk w = Finds e)
                = (truthy (storedBackSelector rk w)
                   \<and> query (document w) (tmpl (storedBackSelector rk w)) = Found e)))
     \<and> (\<forall>e. backwardLookup rk w = Finds e \<longrightarrow>
            handleRouteChangeComplete rk (Some w) = Inr (Some w')
          \<and> viewTransitionName (document w')
              = (\<lambda>x. if x = e then ''__NRVT_transition-img'' else [])
          \<and> \<not> markerLookupMade (newEvents w w'))
     \<and> markerLookupMade (newEvents w w') = (backwardLookup rk w = Misses)"
proof -
  have parts: "persistFault rk w = None \<and> readFault rk w = None \<longrightarrow>
          (\<forall>e. (backwardLookup rk w = Finds e)
                = (truthy (storedBackSelector rk w)
                   \<and> query (document w) (tmpl (storedBackSelector rk w)) = Found e))"
    by (auto simp: backwardLookup_parts split: qresult.splits)
  have run: "\<exists>w'. windowAfter (handleRouteChangeComplete rk (Some w)) = Some w'
     \<and> NRVT_routerKey w' = rk \<and> NRVT_previousRouterKey w' = NRVT_routerKey w
     \<and> (persistFault rk w = None \<longrightarrow>
          GetItem (storagePrefix @ tmpl rk @ ''-'' @ tmpl (NRVT_routerKey w))
            \<in> set (newEvents w w'))
     \<and> (\<forall>e. backwardLookup rk w = Finds e \<longrightarrow>
            handleRouteChangeComplete rk (Some w) = Inr (Some w')
          \<and> viewTransitionName (document w')
              = (\<lambda>x. if x = e then ''__NRVT_transition-img'' else [])
          \<and> \<not> markerLookupMade (newEvents w w'))
     \<and> markerLookupMade (newEvents w w') = (backwardLookup rk w = Misses)"
    (is "\<exists>w'. ?R w'")
  proof (cases "backwardLookup rk w")
    case (Raises err)
    show ?thesis
      by (simp add: handle_Some complete_backward_Raises [OF Raises] Raises after_lookup
          newEvents_def markerLookupMade_def backwardKey_def backRouterKey_def)
  next
    case (Finds e)
    show ?thesis
      by (simp add: handle_Some complete_backward_Finds [OF Finds] Finds after_lookup
          later_defs newEvents_def markerLookupMade_def backwardKey_def backRouterKey_def
          transitionImgName_def fun_eq_iff lookup_without_fault(2) [OF Finds])
  next
    case Misses
    note nf = lookup_without_fault(1) [OF Misses]
    show ?thesis
    proof (cases "markerLookup w")
      case (Raises err)
      show ?thesis
        by (simp add: handle_Some complete_marker_Raises [OF Misses Raises] Misses
            after_lookup later_defs newEvents_def markerLookupMade_def backwardKey_def
            backRouterKey_def nf)
    next
      case Misses': Misses
      show ?thesis
        by (simp add: handle_Some complete_marker_Misses [OF Misses Misses'] Misses
            after_lookup later_defs newEvents_def markerLookupMade_def backwardKey_def
            backRouterKey_def nf)
    next
      case (Finds t)
      show ?thesis
      proof (cases "markerWriteFault rk w t")
        case None
        show ?thesis
          by (simp add: handle_Some complete_marker_Finds_stored [OF Misses Finds None]
              Misses after_lookup later_defs newEvents_def markerLookupMade_def
              backwardKey_def backRouterKey_def nf)
      next
        case (Some err)
        show ?thesis
          by (simp add: handle_Some complete_marker_Finds_rejected [OF Misses Finds Some]
              Misses after_lookup later_defs newEvents_def markerLookupMade_def
              backwardKey_def backRouterKey_def nf)
      qed
    qed
  qed
  from run obtain w' where r: "?R w'" ..
  from parts r show ?thesis by (intro exI [of _ w']) blast
qed

theorem C3_backward_lookup_witness:
  "backwardLookup (Some ''r1'') windowBackAtA = Finds 1
   \<and> persistFault (Some ''r1'') windowBackAtA = None
   \<and> (\<exists>w'. handleRouteChangeComplete (Some ''r1'') (Some windowBackAtA) = Inr (Some w')
         \<and> viewTransitionName (document w')
             = (\<lambda>x. if x = 1 then ''__NRVT_transition-img'' else [])
         \<and> GetItem ''__NRVT_view_transition_image_selector_r1-r2''
              \<in> set (newEvents windowBackAtA w')
         \<and> \<not> markerLookupMade (newEvents windowBackAtA w'))
   \<and> backwardLookup (Some ''r2'') windowArrivingAtB = Misses
   \<and> (\<exists>w'. windowAfter (handleRouteChangeComplete (Some ''r2'') (Some windowArrivingAtB))
              = Some w'
         \<and> markerLookupMade (newEvents windowArrivingAtB w'))"
proof -
  have pf: "persistFault (Some ''r1'') windowBackAtA = None"
    by (simp add: persistFault_def windowBackAtA_def)
  have key: "storagePrefix @ tmpl (Some ''r1'') @ ''-'' @ tmpl (NRVT_routerKey windowBackAtA)
               = ''__NRVT_view_transition_image_selector_r1-r2''"
    by (simp add: storagePrefix_def windowBackAtA_def)
  from C3_backward_lookup [of "Some ''r1''" windowBackAtA]
    C3_backward_lookup [of "Some ''r2''" windowArrivingAtB]
  show ?thesis
    by (simp only: back_at_A arriving_back pf key) (simp, blast)
qed

subsection \<open>Persisting the transient selector\<close>

text \<open>
  C4 (the claim as stated fails). The completion of a navigation from the key \<open>r2\<close> to
  itself has one storage key for both directions. With the selector \<open>#thumb-a\<close> pending,
  nothing is thrown, yet the entry under \<open>prev-curr\<close> ends as \<open>#hero\<close>: line 34 has
  overwritten what line 14 wrote. With nothing pending, an entry is written under
  \<open>prev-curr\<close> all the same.
\<close>

theorem C4_colliding_keys_overwrite:
  "NRVT_transitionImgSelector (windowArrivingAtB\<lparr>NRVT_routerKey := Some ''r2''\<rparr>)
     = Some ''#thumb-a''
   \<and> thrownBy (handleRouteChangeComplete (Some ''r2'')
                  (Some (windowArrivingAtB\<lparr>NRVT_routerKey := Some ''r2''\<rparr>))) = None
   \<and> storedAfter (handleRouteChangeComplete (Some ''r2'')
                     (Some (windowArrivingAtB\<lparr>NRVT_routerKey := Some ''r2''\<rparr>)))
        ''__NRVT_view_transition_image_selector_r2-r2'' = Some ''#hero''
   \<and> sessionStorage (windowArrivingAtB\<lparr>NRVT_routerKey := Some ''r2'',
                         NRVT_transitionImgSelector := None\<rparr>)
        ''__NRVT_view_transition_image_selector_r2-r2'' = None
   \<and> storedAfter (handleRouteChangeComplete (Some ''r2'')
                     (Some (windowArrivingAtB\<lparr>NRVT_routerKey := Some ''r2'',
                              NRVT_transitionImgSelector := None\<rparr>)))
        ''__NRVT_view_transition_image_selector_r2-r2'' = Some ''#hero''"
proof -
  let ?w = "windowArrivingAtB\<lparr>NRVT_routerKey := Some ''r2''\<rparr>"
  let ?v = "windowArrivingAtB\<lparr>NRVT_routerKey := Some ''r2'',
              NRVT_transitionImgSelector := None\<rparr>"
  have bw: "backwardLookup (Some ''r2'') ?w = Misses"
    by (simp add: example_lookup windowArrivingAtB_def pageB_def srcSelectorA_def)
  have mw: "markerLookup ?w = Finds 2"
    by (simp add: example_lookup windowArrivingAtB_def pageB_def srcSelectorA_def)
  have fw: "markerWriteFault (Some ''r2'') ?w 2 = None"
    by (simp add: example_lookup windowArrivingAtB_def)
  have bv: "backwardLookup (Some ''r2'') ?v = Misses"
    by (simp add: example_lookup windowArrivingAtB_def pageB_def srcSelectorA_def)
  have mv: "markerLookup ?v = Finds 2"
    by (simp add: example_lookup windowArrivingAtB_def pageB_def srcSelectorA_def)
  have fv: "markerWriteFault (Some ''r2'') ?v 2 = None"
    by (simp add: example_lookup windowArrivingAtB_def)
  have "thrownBy (handleRouteChangeComplete (Some ''r2'') (Some ?w)) = None"
    by (simp add: handle_Some complete_marker_Finds_stored [OF bw mw fw])
  moreover
  have "storedAfter (handleRouteChangeComplete (Some ''r2'') (Some ?w))
          ''__NRVT_view_transition_image_selector_r2-r2'' = Some ''#hero''"
    by (simp add: handle_Some complete_marker_Finds_stored [OF bw mw fw] later_defs)
       (simp add: windowArrivingAtB_def pageB_def backwardKey_def backRouterKey_def
        storagePrefix_def)
  moreover
  have "storedAfter (handleRouteChangeComplete (Some ''r2'') (Some ?v))
          ''__NRVT_view_transition_image_selector_r2-r2'' = Some ''#hero''"
    by (simp add: handle_Some complete_marker_Finds_stored [OF bv mv fv] later_defs)
       (simp add: windowArrivingAtB_def pageB_def backwardKey_def backRouterKey_def
        storagePrefix_def)
  moreover
  have "NRVT_transitionImgSelector ?w = Some ''#thumb-a''"
    and "sessionStorage ?v ''__NRVT_view_transition_image_selector_r2-r2'' = None"
    by (simp_all add: windowArrivingAtB_def)
  ultimately show ?thesis by simp
qed

text \<open>
  C4 (amended). If the transient slot holds a non-empty selector when completion runs,
  the first thing the run does is to call \<^verbatim>\<open>setItem\<close> with exactly that selector under
  the key \<open>prev-curr\<close>, and it is the only write before the read of the backward key;
  when session storage accepts the write, the slot is cleared, and the entry still holds
  that selector at the end whenever the backward key \<open>curr-prev\<close> is a different key. If
  the slot is empty, nothing is written before the read and the slot stays as it was,
  and the entry under \<open>prev-curr\<close> is left alone whenever \<open>curr-prev\<close> is a different key.
\<close>

theorem C4_transient_selector_persisted:
  "\<exists>w'. windowAfter (handleRouteChangeComplete rk (Some w)) = Some w'
     \<and> (if truthy (NRVT_transitionImgSelector w)
        then takeWhile (\<lambda>ev. \<not> isGetItem ev) (newEvents w w')
               = [SetItem (storagePrefix @ tmpl (NRVT_routerKey w) @ ''-'' @ tmpl rk)
                    (tmpl (NRVT_transitionImgSelector w))]
           \<and> (persistFault rk w = None \<longrightarrow>
                NRVT_transitionImgSelector w' = None
                \<and> (forwardKey (NRVT_routerKey w) rk \<noteq> backwardKey (NRVT_routerKey w) rk \<longrightarrow>
                     sessionStorage w' (forwardKey (NRVT_routerKey w) rk)
                       = Some (tmpl (NRVT_transitionImgSelector w))))
        else takeWhile (\<lambda>ev. \<not> isGetItem ev) (newEvents w w') = []
           \<and> NRVT_transitionImgSelector w' = NRVT_transitionImgSelector w
           \<and> (forwardKey (NRVT_routerKey w) rk \<noteq> backwardKey (NRVT_routerKey w) rk \<longrightarrow>
                sessionStorage w' (forwardKey (NRVT_routerKey w) rk)
                  = sessionStorage w (forwardKey (NRVT_routerKey w) rk)))"
proof (cases "backwardLookup rk w")
  case (Raises err)
  show ?thesis
    by (simp add: handle_Some complete_backward_Raises [OF Raises] after_lookup
        newEvents_def forwardKey_def persistFault_def)
next
  case (Finds e)
  show ?thesis
    by (simp add: handle_Some complete_backward_Finds [OF Finds] after_lookup later_defs
        newEvents_def forwardKey_def lookup_without_fault(2) [OF Finds])
next
  case Misses
  note nf = lookup_without_fault(1) [OF Misses]
  show ?thesis
  proof (cases "markerLookup w")
    case (Raises err)
    show ?thesis
      by (simp add: handle_Some complete_marker_Raises [OF Misses Raises] after_lookup
          later_defs newEvents_def forwardKey_def nf)
  next
    case Misses': Misses
    show ?thesis
      by (simp add: handle_Some complete_marker_Misses [OF Misses Misses'] after_lookup
          later_defs newEvents_def forwardKey_def nf)
  next
    case (Finds t)
    show ?thesis
    proof (cases "markerWriteFault rk w t")
      case None
      show ?thesis
        by (simp add: handle_Some complete_marker_Finds_stored [OF Misses Finds None]
            after_lookup later_defs newEvents_def forwardKey_def nf)
    next
      case (Some err)
      show ?thesis
        by (simp add: handle_Some complete_marker_Finds_rejected [OF Misses Finds Some]
            after_lookup later_defs newEvents_def forwardKey_def nf)
    qed
  qed
qed

theorem C4_transient_selector_persisted_witness:
  "truthy (NRVT_transitionImgSelector windowArrivingAtB)
   \<and> persistFault (Some ''r2'') windowArrivingAtB = None
   \<and> forwardKey (NRVT_routerKey windowArrivingAtB) (Some ''r2'')
       \<noteq> backwardKey (NRVT_routerKey windowArrivingAtB) (Some ''r2'')
   \<and> (\<exists>w'. windowAfter (handleRouteChangeComplete (Some ''r2'') (Some windowArrivingAtB))
              = Some w'
         \<and> NRVT_transitionImgSelector w' = None
         \<and> sessionStorage w' ''__NRVT_view_transition_image_selector_r1-r2''
             = Some ''#thumb-a'')
   \<and> \<not> truthy (NRVT_transitionImgSelector windowBackAtA)
   \<and> forwardKey (NRVT_routerKey windowBackAtA) (Some ''r1'')
       \<noteq> backwardKey (NRVT_routerKey windowBackAtA) (Some ''r1'')
   \<and> (\<exists>w'. windowAfter (handleRouteChangeComplete (Some ''r1'') (Some windowBackAtA))
              = Some w'
         \<and> NRVT_transitionImgSelector w' = None
         \<and> sessionStorage w' ''__NRVT_view_transition_image_selector_r2-r1''
             = Some ''#hero'')"
  using C4_transient_selector_persisted [of "Some ''r2''" windowArrivingAtB]
    C4_transient_selector_persisted [of "Some ''r1''" windowBackAtA]
  by (simp add: windowArrivingAtB_def windowBackAtA_def forwardKey_def backwardKey_def
      backRouterKey_def storagePrefix_def persistFault_def) blast

subsection \<open>The marker lookup\<close>

text \<open>
  C2 (the claim as stated fails). Arriving at page B from \<open>r1\<close> with new key \<open>r2\<close>, the
  marker matches image 2, whose computed selector is \<open>#hero\<close>. After the run that
  selector is stored under \<open>r2-r1\<close>, the key \<open>curr-prev\<close>; the entry under \<open>r1-r2\<close>
  holds the selector of the image clicked on page A.
\<close>

theorem C2_selector_under_backward_key:
  "markerLookup windowArrivingAtB = Finds 2
   \<and> orEmpty (getElementSelector (document windowArrivingAtB) (Some 2)) = ''#hero''
   \<and> storedAfter (handleRouteChangeComplete (Some ''r2'') (Some windowArrivingAtB))
        ''__NRVT_view_transition_image_selector_r1-r2'' = Some ''#thumb-a''
   \<and> storedAfter (handleRouteChangeComplete (Some ''r2'') (Some windowArrivingAtB))
        ''__NRVT_view_transition_image_selector_r2-r1'' = Some ''#hero''
   \<and> nameAfter (handleRouteChangeComplete (Some ''r2'') (Some windowArrivingAtB)) 2
        = ''__NRVT_transition-img''"
  by (simp add: handle_Some
      complete_marker_Finds_stored [OF arriving_back arriving_marker arriving_write]
      after_lookup later_defs arriving_marker transitionImgName_def)
     (simp add: windowArrivingAtB_def pageB_def forwardKey_def backwardKey_def
      backRouterKey_def storagePrefix_def persistFault_def)

text \<open>
  C2 (amended). In step 6, reached when the backward lookup yields no live element, when
  the pending marker's attribute name and value match an element of the freshly rendered
  DOM, the handler gives exactly that element the transition name
  \<open>__NRVT_transition-img\<close>, and the last platform call it makes is \<^verbatim>\<open>setItem\<close> with the
  element's computed selector (the empty string if there is none) under the key
  \<open>curr-prev\<close>, the new key followed by the previous one, which is the backward key it
  has just read. When session storage accepts the write the run returns, with that entry
  stored and no other entry touched after the read.
\<close>

theorem C2_marker_match_persisted:
  assumes "backwardLookup rk w = Misses" and "markerLookup w = Finds t"
  shows "\<exists>w'. windowAfter (handleRouteChangeComplete rk (Some w)) = Some w'
     \<and> viewTransitionName (document w')
         = (\<lambda>x. if x = t then ''__NRVT_transition-img'' else [])
     \<and> last (newEvents w w')
         = SetItem (storagePrefix @ tmpl rk @ ''-'' @ tmpl (NRVT_routerKey w))
             (orEmpty (getElementSelector (document w) (Some t)))
     \<and> (markerWriteFault rk w t = None \<longrightarrow>
          handleRouteChangeComplete rk (Some w) = Inr (Some w')
          \<and> sessionStorage w'
              = (if truthy (NRVT_transitionImgSelector w)
                 then (sessionStorage w)
                        (forwardKey (NRVT_routerKey w) rk
                           := Some (tmpl (NRVT_transitionImgSelector w)))
                 else sessionStorage w)
                  (storagePrefix @ tmpl rk @ ''-'' @ tmpl (NRVT_routerKey w)
                     := Some (orEmpty (getElementSelector (document w) (Some t)))))"
proof (cases "markerWriteFault rk w t")
  case None
  show ?thesis
    by (simp add: handle_Some complete_marker_Finds_stored [OF assms None] after_lookup
        later_defs newEvents_def backwardKey_def backRouterKey_def fun_eq_iff None
        transitionImgName_def lookup_without_fault(1) [OF assms(1)])
next
  case (Some err)
  show ?thesis
    by (simp add: handle_Some complete_marker_Finds_rejected [OF assms Some] after_lookup
        later_defs newEvents_def backwardKey_def backRouterKey_def fun_eq_iff Some
        transitionImgName_def lookup_without_fault(1) [OF assms(1)])
qed

theorem C2_marker_match_persisted_witness:
  "backwardLookup (Some ''r2'') windowArrivingAtB = Misses
   \<and> markerLookup windowArrivingAtB = Finds 2
   \<and> markerWriteFault (Some ''r2'') windowArrivingAtB 2 = None
   \<and> (\<exists>w'. handleRouteChangeComplete (Some ''r2'') (Some windowArrivingAtB) = Inr (Some w')
         \<and> viewTransitionName (document w')
             = (\<lambda>x. if x = 2 then ''__NRVT_transition-img'' else [])
         \<and> last (newEvents windowArrivingAtB w')
             = SetItem ''__NRVT_view_transition_image_selector_r2-r1'' ''#hero'')"
proof -
  have key: "storagePrefix @ tmpl (Some ''r2'') @ ''-'' @ tmpl (NRVT_routerKey windowArrivingAtB)
               = ''__NRVT_view_transition_image_selector_r2-r1''"
    by (simp add: windowArrivingAtB_def storagePrefix_def)
  have sel: "orEmpty (getElementSelector (document windowArrivingAtB) (Some 2)) = ''#hero''"
    by (simp add: windowArrivingAtB_def pageB_def)
  have "\<exists>w'. windowAfter (handleRouteChangeComplete (Some ''r2'') (Some windowArrivingAtB))
              = Some w'
     \<and> viewTransitionName (document w')
         = (\<lambda>x. if x = 2 then ''__NRVT_transition-img'' else [])
     \<and> last (newEvents windowArrivingAtB w')
         = SetItem (storagePrefix @ tmpl (Some ''r2'') @ ''-''
                      @ tmpl (NRVT_routerKey windowArrivingAtB))
             (orEmpty (getElementSelector (document windowArrivingAtB) (Some 2)))
     \<and> (markerWriteFault (Some ''r2'') windowArrivingAtB 2 = None \<longrightarrow>
          handleRouteChangeComplete (Some ''r2'') (Some windowArrivingAtB) = Inr (Some w')
          \<and> sessionStorage w'
              = (if truthy (NRVT_transitionImgSelector windowArrivingAtB)
                 then (sessionStorage windowArrivingAtB)
                        (forwardKey (NRVT_routerKey windowArrivingAtB) (Some ''r2'')
                           := Some (tmpl (NRVT_transitionImgSelector windowArrivingAtB)))
                 else sessionStorage windowArrivingAtB)
                  (storagePrefix @ tmpl (Some ''r2'') @ ''-''
                     @ tmpl (NRVT_routerKey windowArrivingAtB)
                     := Some (orEmpty (getElementSelector (document windowArrivingAtB)
                                         (Some 2)))))"
    (is "\<exists>w'. ?P w'")
    by (rule C2_marker_match_persisted [OF arriving_back arriving_marker])
  then obtain w' where p: "?P w'" ..
  from p have named: "viewTransitionName (document w')
              = (\<lambda>x. if x = 2 then ''__NRVT_transition-img'' else [])"
    by (elim conjE)
  from p have "last (newEvents windowArrivingAtB w')
           = SetItem (storagePrefix @ tmpl (Some ''r2'') @ ''-''
                        @ tmpl (NRVT_routerKey windowArrivingAtB))
               (orEmpty (getElementSelector (document windowArrivingAtB) (Some 2)))"
    by (elim conjE)
  then have written: "last (newEvents windowArrivingAtB w')
           = SetItem ''__NRVT_view_transition_image_selector_r2-r1'' ''#hero''"
    by (simp only: key sel)
  from p have "markerWriteFault (Some ''r2'') windowArrivingAtB 2 = None \<longrightarrow>
          handleRouteChangeComplete (Some ''r2'') (Some windowArrivingAtB) = Inr (Some w')"
    by (elim conjE) (rule impI, elim impE, assumption, elim conjE)
  with arriving_write
  have returned: "handleRouteChangeComplete (Some ''r2'') (Some windowArrivingAtB)
                    = Inr (Some w')"
    by (elim impE)
  show ?thesis
  proof (intro conjI exI [of _ w'])
    show "backwardLookup (Some ''r2'') windowArrivingAtB = Misses" by (rule arriving_back)
    show "markerLookup windowArrivingAtB = Finds 2" by (rule arriving_marker)
    show "markerWriteFault (Some ''r2'') windowArrivingAtB 2 = None" by (rule arriving_write)
    show "handleRouteChangeComplete (Some ''r2'') (Some windowArrivingAtB) = Inr (Some w')"
      by (rule returned)
    show "viewTransitionName (document w')
            = (\<lambda>x. if x = 2 then ''__NRVT_transition-img'' else [])"
      by (rule named)
    show "last (newEvents windowArrivingAtB w')
            = SetItem ''__NRVT_view_transition_image_selector_r2-r1'' ''#hero''"
      by (rule written)
  qed
qed

text \<open>
  C5 (the claim as stated fails). The marker pending when completion starts is not
  cleared first: it decides which element is marked. With the marker value
  \<open>/img/a.png\<close> pending the run marks image 2; the same run with no value pending marks
  nothing.
\<close>

theorem C5_pending_marker_decides:
  "NRVT_transitionAttributeValue windowArrivingAtB = Some ''/img/a.png''
   \<and> nameAfter (handleRouteChangeComplete (Some ''r2'') (Some windowArrivingAtB)) 2
        = ''__NRVT_transition-img''
   \<and> nameAfter (handleRouteChangeComplete (Some ''r2'')
        (Some (windowArrivingAtB\<lparr>NRVT_transitionAttributeValue := None\<rparr>))) 2 = []"
proof -
  let ?w = "windowArrivingAtB\<lparr>NRVT_transitionAttributeValue := None\<rparr>"
  have bmiss: "backwardLookup (Some ''r2'') ?w = Misses"
    by (simp add: example_lookup windowArrivingAtB_def pageB_def srcSelectorA_def)
  have mmiss: "markerLookup ?w = Misses"
    by (simp add: example_lookup windowArrivingAtB_def pageB_def srcSelectorA_def)
  have "nameAfter (handleRouteChangeComplete (Some ''r2'') (Some ?w)) 2 = []"
    by (simp add: handle_Some complete_marker_Misses [OF bmiss mmiss] after_lookup later_defs)
  moreover
  have "nameAfter (handleRouteChangeComplete (Some ''r2'') (Some windowArrivingAtB)) 2
          = ''__NRVT_transition-img''"
    by (simp add: handle_Some
        complete_marker_Finds_stored [OF arriving_back arriving_marker arriving_write]
        after_lookup later_defs transitionImgName_def)
  moreover
  have "NRVT_transitionAttributeValue windowArrivingAtB = Some ''/img/a.png''"
    by (simp add: windowArrivingAtB_def)
  ultimately show ?thesis by simp
qed

text \<open>
  C5 (amended). The marker's attribute value is cleared at the end of route-completion
  handling, not at its start: every run that returns leaves no value pending (and the
  attribute name as it was), whether or not a match was found. Before that the marker is
  consulted: whenever the backward lookup yields no live element, the lookup is made with
  the marker pending at that time, whichever activation left it, and the element it
  matches is the one given the transition name \<open>__NRVT_transition-img\<close>, and no other.
\<close>

theorem C5_marker_cleared_at_end:
  "(\<forall>w'. handleRouteChangeComplete rk (Some w) = Inr (Some w') \<longrightarrow>
        NRVT_transitionAttributeValue w' = None
      \<and> NRVT_transitionAttributeName w' = NRVT_transitionAttributeName w
      \<and> (backwardLookup rk w = Misses \<longrightarrow>
           QuerySelector (markerSelector w) \<in> set (newEvents w w')))
   \<and> (\<forall>t. backwardLookup rk w = Misses \<and> markerLookup w = Finds t \<longrightarrow>
        (\<exists>w'. windowAfter (handleRouteChangeComplete rk (Some w)) = Some w'
           \<and> QuerySelector (markerSelector w) \<in> set (newEvents w w')
           \<and> viewTransitionName (document w')
               = (\<lambda>x. if x = t then ''__NRVT_transition-img'' else [])
           \<and> (markerWriteFault rk w t = None \<longrightarrow>
                handleRouteChangeComplete rk (Some w) = Inr (Some w'))))"
proof (cases "backwardLookup rk w")
  case (Raises err)
  show ?thesis
    by (simp add: handle_Some complete_backward_Raises [OF Raises] Raises)
next
  case (Finds e)
  show ?thesis
    by (auto simp: handle_Some complete_backward_Finds [OF Finds] Finds after_lookup
        later_defs)
next
  case Misses
  show ?thesis
  proof (cases "markerLookup w")
    case (Raises err)
    show ?thesis
      by (simp add: handle_Some complete_marker_Raises [OF Misses Raises] Misses Raises)
  next
    case Misses': Misses
    show ?thesis
      by (auto simp: handle_Some complete_marker_Misses [OF Misses Misses'] Misses Misses'
          after_lookup later_defs newEvents_def)
  next
    case (Finds t)
    show ?thesis
    proof (cases "markerWriteFault rk w t")
      case None
      show ?thesis
        by (auto simp: handle_Some complete_marker_Finds_stored [OF Misses Finds None]
            Misses Finds None after_lookup later_defs newEvents_def fun_eq_iff
            transitionImgName_def)
    next
      case (Some err)
      show ?thesis
        by (auto simp: handle_Some complete_marker_Finds_rejected [OF Misses Finds Some]
            Misses Finds Some after_lookup later_defs newEvents_def fun_eq_iff
            transitionImgName_def)
    qed
  qed
qed

theorem C5_marker_cleared_at_end_witness:
  "backwardLookup (Some ''r2'') windowArrivingAtB = Misses
   \<and> markerLookup windowArrivingAtB = Finds 2
   \<and> markerWriteFault (Some ''r2'') windowArrivingAtB 2 = None
   \<and> (\<exists>w'. handleRouteChangeComplete (Some ''r2'') (Some windowArrivingAtB) = Inr (Some w')
         \<and> NRVT_transitionAttributeValue w' = None
         \<and> NRVT_transitionAttributeName w' = Some ''src''
         \<and> QuerySelector srcSelectorA \<in> set (newEvents windowArrivingAtB w')
         \<and> viewTransitionName (document w')
             = (\<lambda>x. if x = 2 then ''__NRVT_transition-img'' else []))"
proof -
  have sel: "markerSelector windowArrivingAtB = srcSelectorA"
    by (simp add: markerSelector_def windowArrivingAtB_def srcSelectorA_def)
  have name: "NRVT_transitionAttributeName windowArrivingAtB = Some ''src''"
    by (simp add: windowArrivingAtB_def)
  note th = C5_marker_cleared_at_end [of "Some ''r2''" windowArrivingAtB]
  note found = mp [OF spec [OF conjunct2 [OF th], where x = 2]
                      conjI [OF arriving_back arriving_marker]]
  from found obtain w' where
    p: "windowAfter (handleRouteChangeComplete (Some ''r2'') (Some windowArrivingAtB))
          = Some w'
        \<and> QuerySelector (markerSelector windowArrivingAtB)
             \<in> set (newEvents windowArrivingAtB w')
        \<and> viewTransitionName (document w')
            = (\<lambda>x. if x = 2 then ''__NRVT_transition-img'' else [])
        \<and> (markerWriteFault (Some ''r2'') windowArrivingAtB 2 = None \<longrightarrow>
             handleRouteChangeComplete (Some ''r2'') (Some windowArrivingAtB)
               = Inr (Some w'))" ..
  from p have queried: "QuerySelector (markerSelector windowArrivingAtB)
                    \<in> set (newEvents windowArrivingAtB w')"
    by (elim conjE)
  from p have named: "viewTransitionName (document w')
                  = (\<lambda>x. if x = 2 then ''__NRVT_transition-img'' else [])"
    by (elim conjE)
  from p have "markerWriteFault (Some ''r2'') windowArrivingAtB 2 = None \<longrightarrow>
             handleRouteChangeComplete (Some ''r2'') (Some windowArrivingAtB)
               = Inr (Some w')"
    by (elim conjE)
  then have returned: "handleRouteChangeComplete (Some ''r2'') (Some windowArrivingAtB)
                    = Inr (Some w')"
    using arriving_write by (rule mp)
  note at_end = mp [OF spec [OF conjunct1 [OF th], where x = w'] returned]
  from at_end have cleared: "NRVT_transitionAttributeValue w' = None"
    by (elim conjE)
  from at_end have kept:
    "NRVT_transitionAttributeName w' = NRVT_transitionAttributeName windowArrivingAtB"
    by (elim conjE)
  show ?thesis
  proof (intro conjI exI [of _ w'])
    show "backwardLookup (Some ''r2'') windowArrivingAtB = Misses" by (rule arriving_back)
    show "markerLookup windowArrivingAtB = Finds 2" by (rule arriving_marker)
    show "markerWriteFault (Some ''r2'') windowArrivingAtB 2 = None" by (rule arriving_write)
    show "handleRouteChangeComplete (Some ''r2'') (Some windowArrivingAtB) = Inr (Some w')"
      by (rule returned)
    show "NRVT_transitionAttributeValue w' = None" by (rule cleared)
    show "NRVT_transitionAttributeName w' = Some ''src''" using kept name by simp
    show "QuerySelector srcSelectorA \<in> set (newEvents windowArrivingAtB w')"
      using queried sel by simp
    show "viewTransitionName (document w')
            = (\<lambda>x. if x = 2 then ''__NRVT_transition-img'' else [])"
      by (rule named)
  qed
qed

subsection \<open>Lookups that miss, and lookups that throw\<close>




subsection \<open>Link activation\<close>

lemmas click_defs = handleClick_def querySelectorIn_def querySelector_def logEvent_def
  setPlaceholderData_def handleTransitionStarted_def markPendingTransitionTarget_def

lemma click_without_image:
  assumes "queryWithin (document w) (currentTarget c) ''.transitionable-img'' = Null"
      and "query (document w) ''#transition-img'' = Null"
  shows "handleClick c w =
     Inr (w\<lparr>NRVT_transitionImgSelector := None, NRVT_transitionAttributeName := None,
            NRVT_transitionAttributeValue := None,
            placeholderData := linkPlaceholderData c,
            trace := trace w @ (if hasOnClick c then [OnClick] else [])
                     @ [QuerySelectorIn (currentTarget c) ''.transitionable-img'',
                        QuerySelector ''#transition-img'']\<rparr>)"
  using assms by (simp add: click_defs Let_def)

lemma click_with_image:
  assumes "foundTransitionImg (document w) (currentTarget c) = Some e"
  shows "handleClick c w =
     Inr (w\<lparr>NRVT_transitionImgSelector := Some (selectorOf (document w) e),
            NRVT_transitionAttributeName := Some ''src'',
            NRVT_transitionAttributeValue := Some (removeFirst (origin w) (src (document w) e)),
            placeholderData := linkPlaceholderData c,
            trace := trace w @ (if hasOnClick c then [OnClick] else [])
                     @ [QuerySelectorIn (currentTarget c) ''.transitionable-img'']
                     @ (if queryWithin (document w) (currentTarget c) ''.transitionable-img''
                           = Null
                        then [QuerySelector ''#transition-img''] else [])\<rparr>)"
proof (cases "queryWithin (document w) (currentTarget c) ''.transitionable-img''")
  case Invalid
  with assms show ?thesis by (simp add: foundTransitionImg_def)
next
  case (Found x)
  with assms have "x = e" by (simp add: foundTransitionImg_def)
  with Found show ?thesis by (simp add: click_defs Let_def)
next
  case Null
  with assms have "query (document w) ''#transition-img'' = Found e"
    by (simp add: foundTransitionImg_def split: qresult.splits)
  with Null show ?thesis by (simp add: click_defs Let_def)
qed

lemma click_throws_in_link:
  assumes "queryWithin (document w) (currentTarget c) ''.transitionable-img'' = Invalid"
  shows "\<exists>w'. handleClick c w = Inl (SyntaxError, w')"
  using assms by (simp add: click_defs Let_def)

lemma click_throws_global:
  assumes "queryWithin (document w) (currentTarget c) ''.transitionable-img'' = Null"
      and "query (document w) ''#transition-img'' = Invalid"
  shows "\<exists>w'. handleClick c w = Inl (SyntaxError, w')"
  using assms by (simp add: click_defs Let_def)

lemma click_returns:
  assumes "handleClick c w = Inr w1"
  shows "(\<exists>e. foundTransitionImg (document w) (currentTarget c) = Some e)
     \<or> (queryWithin (document w) (currentTarget c) ''.transitionable-img'' = Null
        \<and> query (document w) ''#transition-img'' = Null)"
proof (cases "queryWithin (document w) (currentTarget c) ''.transitionable-img''")
  case Invalid
  from click_throws_in_link [OF Invalid] assms show ?thesis by auto
next
  case (Found x)
  then show ?thesis by (simp add: foundTransitionImg_def)
next
  case Null
  show ?thesis
  proof (cases "query (document w) ''#transition-img''")
    case Invalid
    from click_throws_global [OF Null Invalid] assms show ?thesis by auto
  next
    case Null': Null
    with Null show ?thesis by simp
  next
    case (Found x)
    with Null show ?thesis by (simp add: foundTransitionImg_def)
  qed
qed

lemma click_shape:
  assumes "handleClick c w = Inr w1"
  shows "\<exists>s n v t. w1 = w\<lparr>NRVT_transitionImgSelector := s, NRVT_transitionAttributeName := n,
            NRVT_transitionAttributeValue := v, placeholderData := linkPlaceholderData c,
            trace := t\<rparr>"
  using click_returns [OF assms]
proof (elim disjE exE conjE)
  fix e assume "foundTransitionImg (document w) (currentTarget c) = Some e"
  from click_with_image [OF this] assms show ?thesis by auto
next
  assume "queryWithin (document w) (currentTarget c) ''.transitionable-img'' = Null"
    and "query (document w) ''#transition-img'' = Null"
  from click_without_image [OF this] assms show ?thesis by auto
qed

text \<open>
  C9. Of two link activations in a row, with no completion between them, the second
  decides: the window after both is the window after the second alone in every part but
  the trace of calls. So it holds exactly the second activation's placeholder data and
  the second activation's marker and selector.
\<close>

theorem C9_last_activation_wins:
  assumes "handleClick c1 w = Inr w1" and "handleClick c2 w1 = Inr w12"
  shows "\<exists>w2. handleClick c2 w = Inr w2
     \<and> w12 = w2\<lparr>trace := trace w12\<rparr>
     \<and> placeholderData w12 = linkPlaceholderData c2
     \<and> NRVT_transitionAttributeName w12 = NRVT_transitionAttributeName w2
     \<and> NRVT_transitionAttributeValue w12 = NRVT_transitionAttributeValue w2
     \<and> NRVT_transitionImgSelector w12 = NRVT_transitionImgSelector w2"
proof -
  from click_shape [OF assms(1)] obtain s n v t where
    w1: "w1 = w\<lparr>NRVT_transitionImgSelector := s, NRVT_transitionAttributeName := n,
            NRVT_transitionAttributeValue := v, placeholderData := linkPlaceholderData c1,
            trace := t\<rparr>"
    by blast
  then have d: "document w1 = document w" and o: "origin w1 = origin w"
    by simp_all
  from click_returns [OF assms(2)] show ?thesis
  proof (elim disjE exE conjE)
    fix e assume f1: "foundTransitionImg (document w1) (currentTarget c2) = Some e"
    then have f: "foundTransitionImg (document w) (currentTarget c2) = Some e"
      by (simp add: d)
    from click_with_image [OF f1] assms(2)
    have "\<exists>T. w12 = w1\<lparr>NRVT_transitionImgSelector := Some (selectorOf (document w) e),
            NRVT_transitionAttributeName := Some ''src'',
            NRVT_transitionAttributeValue := Some (removeFirst (origin w) (src (document w) e)),
            placeholderData := linkPlaceholderData c2,
            trace := T\<rparr>"
      by (auto simp: d o)
    then obtain T where
      "w12 = w1\<lparr>NRVT_transitionImgSelector := Some (selectorOf (document w) e),
            NRVT_transitionAttributeName := Some ''src'',
            NRVT_transitionAttributeValue := Some (removeFirst (origin w) (src (document w) e)),
            placeholderData := linkPlaceholderData c2,
            trace := T\<rparr>"
      by blast
    with w1 click_with_image [OF f] show ?thesis by simp
  next
    assume n1: "queryWithin (document w1) (currentTarget c2) ''.transitionable-img'' = Null"
      "query (document w1) ''#transition-img'' = Null"
    then have n: "queryWithin (document w) (currentTarget c2) ''.transitionable-img'' = Null"
      "query (document w) ''#transition-img'' = Null"
      by (simp_all add: d)
    from click_without_image [OF n1] assms(2)
    have "\<exists>T. w12 = w1\<lparr>NRVT_transitionImgSelector := None,
            NRVT_transitionAttributeName := None, NRVT_transitionAttributeValue := None,
            placeholderData := linkPlaceholderData c2, trace := T\<rparr>"
      by auto
    then obtain T where
      "w12 = w1\<lparr>NRVT_transitionImgSelector := None,
            NRVT_transitionAttributeName := None, NRVT_transitionAttributeValue := None,
            placeholderData := linkPlaceholderData c2, trace := T\<rparr>"
      by blast
    with w1 click_without_image [OF n] show ?thesis by simp
  qed
qed

theorem C9_last_activation_wins_witness:
  "handleClick (clickLink 10 ''article 1'') windowAtA
     = Inr (windowAtA\<lparr>NRVT_transitionImgSelector := Some ''#thumb-a'',
              NRVT_transitionAttributeName := Some ''src'',
              NRVT_transitionAttributeValue := Some ''/img/a.png'',
              placeholderData := Some ''article 1'',
              trace := [QuerySelectorIn 10 ''.transitionable-img'']\<rparr>)
   \<and> (\<exists>w12. handleClick (clickLink 12 ''article 3'')
               (windowAtA\<lparr>NRVT_transitionImgSelector := Some ''#thumb-a'',
                  NRVT_transitionAttributeName := Some ''src'',
                  NRVT_transitionAttributeValue := Some ''/img/a.png'',
                  placeholderData := Some ''article 1'',
                  trace := [QuerySelectorIn 10 ''.transitionable-img'']\<rparr>) = Inr w12
          \<and> placeholderData w12 = Some ''article 3''
          \<and> NRVT_transitionAttributeValue w12 = Some ''/img/c.png''
          \<and> NRVT_transitionImgSelector w12 = Some ''#thumb-c'')"
proof -
  have f1: "foundTransitionImg (document windowAtA) (currentTarget (clickLink 10 ''article 1''))
              = Some 1"
    by (simp add: foundTransitionImg_def windowAtA_def pageA_def clickLink_def)
  have c1: "handleClick (clickLink 10 ''article 1'') windowAtA
     = Inr (windowAtA\<lparr>NRVT_transitionImgSelector := Some ''#thumb-a'',
              NRVT_transitionAttributeName := Some ''src'',
              NRVT_transitionAttributeValue := Some ''/img/a.png'',
              placeholderData := Some ''article 1'',
              trace := [QuerySelectorIn 10 ''.transitionable-img'']\<rparr>)"
    unfolding click_with_image [OF f1]
    by (simp add: windowAtA_def pageA_def clickLink_def)
  let ?w1 = "windowAtA\<lparr>NRVT_transitionImgSelector := Some ''#thumb-a'',
              NRVT_transitionAttributeName := Some ''src'',
              NRVT_transitionAttributeValue := Some ''/img/a.png'',
              placeholderData := Some ''article 1'',
              trace := [QuerySelectorIn 10 ''.transitionable-img'']\<rparr>"
  have f2: "foundTransitionImg (document ?w1) (currentTarget (clickLink 12 ''article 3''))
              = Some 3"
    by (simp add: foundTransitionImg_def windowAtA_def pageA_def clickLink_def)
  have f2': "foundTransitionImg (document windowAtA) (currentTarget (clickLink 12 ''article 3''))
              = Some 3"
    by (simp add: foundTransitionImg_def windowAtA_def pageA_def clickLink_def)
  have c2: "handleClick (clickLink 12 ''article 3'') windowAtA
     = Inr (windowAtA\<lparr>NRVT_transitionImgSelector := Some ''#thumb-c'',
              NRVT_transitionAttributeName := Some ''src'',
              NRVT_transitionAttributeValue := Some ''/img/c.png'',
              placeholderData := Some ''article 3'',
              trace := [QuerySelectorIn 12 ''.transitionable-img'']\<rparr>)"
    unfolding click_with_image [OF f2']
    by (simp add: windowAtA_def pageA_def clickLink_def)
  obtain w12 where c12: "handleClick (clickLink 12 ''article 3'') ?w1 = Inr w12"
    using click_with_image [OF f2] by blast
  have pd: "linkPlaceholderData (clickLink 12 ''article 3'') = Some ''article 3''"
    by (simp add: clickLink_def)
  from C9_last_activation_wins [OF c1 c12]
  have "placeholderData w12 = Some ''article 3''
      \<and> NRVT_transitionAttributeValue w12 = Some ''/img/c.png''
      \<and> NRVT_transitionImgSelector w12 = Some ''#thumb-c''"
    by (auto simp: c2 pd)
  with c1 c12 show ?thesis by simp
qed

lemma returned_back: "backwardLookup (Some ''r2'')
   (renderPage pageB (windowReturnedToA\<lparr>NRVT_transitionImgSelector := None,
      NRVT_transitionAttributeName := None, NRVT_transitionAttributeValue := None,
      placeholderData := Some ''about'',
      trace := [QuerySelectorIn 11 ''.transitionable-img'', QuerySelector ''#transition-img'']\<rparr>))
   = Finds 2"
  by (simp add: example_lookup renderPage_def windowReturnedToA_def pageB_def)

text \<open>
  C8 (the claim as stated fails). On page A, back from a visit to \<open>r2\<close>, link 11 is
  clicked; it wraps no image and the page has no \<open>#transition-img\<close>. The completion
  that follows under key \<open>r2\<close> does more than clean up: the backward lookup finds the
  selector stored under \<open>r2-r1\<close> and image 2 is given the transition name.
\<close>

theorem C8_completion_marks_stored_image:
  "queryWithin (document windowReturnedToA) 11 ''.transitionable-img'' = Null
   \<and> query (document windowReturnedToA) ''#transition-img'' = Null
   \<and> nameAfter (clickThenComplete (clickLink 11 ''about'') (Some ''r2'') pageB
                   windowReturnedToA) 2 = ''__NRVT_transition-img''"
proof -
  have n: "queryWithin (document windowReturnedToA)
             (currentTarget (clickLink 11 ''about'')) ''.transitionable-img'' = Null"
    "query (document windowReturnedToA) ''#transition-img'' = Null"
    by (simp_all add: windowReturnedToA_def pageA_def clickLink_def)
  have c: "handleClick (clickLink 11 ''about'') windowReturnedToA
     = Inr (windowReturnedToA\<lparr>NRVT_transitionImgSelector := None,
              NRVT_transitionAttributeName := None, NRVT_transitionAttributeValue := None,
              placeholderData := Some ''about'',
              trace := [QuerySelectorIn 11 ''.transitionable-img'',
                        QuerySelector ''#transition-img'']\<rparr>)"
    unfolding click_without_image [OF n]
    by (simp add: clickLink_def windowReturnedToA_def)
  have "nameAfter (clickThenComplete (clickLink 11 ''about'') (Some ''r2'') pageB
                   windowReturnedToA) 2 = ''__NRVT_transition-img''"
    by (simp add: clickThenComplete_def c handle_Some
        complete_backward_Finds [OF returned_back] later_defs
        transitionImgName_def)
  with n show ?thesis by (simp add: clickLink_def)
qed

text \<open>
  C8 (amended). When a link is clicked and no transitionable image is found, the click
  returns and leaves no marker and no selector pending. If in the completion that
  follows the backward lookup yields no live element and no element matches the
  selector built from the empty marker, that completion returns without raising and
  performs only the clean-up: no element carries the transition name, nothing is written
  to session storage and no element is named.
\<close>

theorem C8_click_without_image_cleans_up:
  assumes "queryWithin (document w) (currentTarget c) ''.transitionable-img'' = Null"
      and "query (document w) ''#transition-img'' = Null"
  shows "\<exists>w1. handleClick c w = Inr w1
     \<and> NRVT_transitionAttributeName w1 = None \<and> NRVT_transitionAttributeValue w1 = None
     \<and> NRVT_transitionImgSelector w1 = None
     \<and> (\<forall>d. markerSelector (renderPage d w1)
               = ''[undefined='' @ [CHR 0x22] @ ''undefined'' @ [CHR 0x22] @ '']'')
     \<and> (\<forall>d rk. backwardLookup rk (renderPage d w1) = Misses
                \<and> markerLookup (renderPage d w1) = Misses \<longrightarrow>
          (\<exists>w2. clickThenComplete c rk d w = Inr (Some w2)
             \<and> viewTransitionName (document w2) = (\<lambda>x. [])
             \<and> sessionStorage w2 = sessionStorage w
             \<and> CleanUpTransition \<in> set (newEvents (renderPage d w1) w2)
             \<and> \<not> list_ex isSetItem (newEvents (renderPage d w1) w2)
             \<and> \<not> list_ex isSetViewTransitionName (newEvents (renderPage d w1) w2)))"
proof -
  let ?w1 = "w\<lparr>NRVT_transitionImgSelector := None, NRVT_transitionAttributeName := None,
            NRVT_transitionAttributeValue := None,
            placeholderData := linkPlaceholderData c,
            trace := trace w @ (if hasOnClick c then [OnClick] else [])
                     @ [QuerySelectorIn (currentTarget c) ''.transitionable-img'',
                        QuerySelector ''#transition-img'']\<rparr>"
  have c: "handleClick c w = Inr ?w1"
    by (rule click_without_image [OF assms])
  have sel: "\<forall>d. markerSelector (renderPage d ?w1)
               = ''[undefined='' @ [CHR 0x22] @ ''undefined'' @ [CHR 0x22] @ '']''"
    by (simp add: markerSelector_def renderPage_def)
  have run: "\<forall>d rk. backwardLookup rk (renderPage d ?w1) = Misses
                \<and> markerLookup (renderPage d ?w1) = Misses \<longrightarrow>
          (\<exists>w2. clickThenComplete c rk d w = Inr (Some w2)
             \<and> viewTransitionName (document w2) = (\<lambda>x. [])
             \<and> sessionStorage w2 = sessionStorage w
             \<and> CleanUpTransition \<in> set (newEvents (renderPage d ?w1) w2)
             \<and> \<not> list_ex isSetItem (newEvents (renderPage d ?w1) w2)
             \<and> \<not> list_ex isSetViewTransitionName (newEvents (renderPage d ?w1) w2))"
  proof (intro allI impI, elim conjE)
    fix d rk
    assume b: "backwardLookup rk (renderPage d ?w1) = Misses"
      and m: "markerLookup (renderPage d ?w1) = Misses"
    show "\<exists>w2. clickThenComplete c rk d w = Inr (Some w2)
             \<and> viewTransitionName (document w2) = (\<lambda>x. [])
             \<and> sessionStorage w2 = sessionStorage w
             \<and> CleanUpTransition \<in> set (newEvents (renderPage d ?w1) w2)
             \<and> \<not> list_ex isSetItem (newEvents (renderPage d ?w1) w2)
             \<and> \<not> list_ex isSetViewTransitionName (newEvents (renderPage d ?w1) w2)"
      by (simp add: clickThenComplete_def c handle_Some complete_marker_Misses [OF b m]
          after_lookup later_defs newEvents_def lookup_without_fault(1) [OF b])
         (simp add: renderPage_def)
  qed
  from c sel run show ?thesis by simp
qed

theorem C8_click_without_image_cleans_up_witness:
  "queryWithin (document windowAtA) (currentTarget (clickLink 11 ''about''))
     ''.transitionable-img'' = Null
   \<and> query (document windowAtA) ''#transition-img'' = Null
   \<and> (\<exists>w2. clickThenComplete (clickLink 11 ''about'') (Some ''r2'') pageB windowAtA
              = Inr (Some w2)
         \<and> viewTransitionName (document w2) = (\<lambda>x. [])
         \<and> sessionStorage w2 = sessionStorage windowAtA)"
proof -
  have n: "queryWithin (document windowAtA) (currentTarget (clickLink 11 ''about''))
             ''.transitionable-img'' = Null"
    "query (document windowAtA) ''#transition-img'' = Null"
    by (simp_all add: windowAtA_def pageA_def clickLink_def)
  from C8_click_without_image_cleans_up [OF n]
  obtain w1 where w1: "handleClick (clickLink 11 ''about'') windowAtA = Inr w1"
    and run: "\<forall>d rk. backwardLookup rk (renderPage d w1) = Misses
                \<and> markerLookup (renderPage d w1) = Misses \<longrightarrow>
          (\<exists>w2. clickThenComplete (clickLink 11 ''about'') rk d windowAtA = Inr (Some w2)
             \<and> viewTransitionName (document w2) = (\<lambda>x. [])
             \<and> sessionStorage w2 = sessionStorage windowAtA
             \<and> CleanUpTransition \<in> set (newEvents (renderPage d w1) w2)
             \<and> \<not> list_ex isSetItem (newEvents (renderPage d w1) w2)
             \<and> \<not> list_ex isSetViewTransitionName (newEvents (renderPage d w1) w2))"
    by blast
  from w1 have shape: "w1 = windowAtA\<lparr>NRVT_transitionImgSelector := None,
            NRVT_transitionAttributeName := None, NRVT_transitionAttributeValue := None,
            placeholderData := linkPlaceholderData (clickLink 11 ''about''),
            trace := trace windowAtA
                     @ (if hasOnClick (clickLink 11 ''about'') then [OnClick] else [])
                     @ [QuerySelectorIn (currentTarget (clickLink 11 ''about''))
                          ''.transitionable-img'',
                        QuerySelector ''#transition-img'']\<rparr>"
    by (simp add: click_without_image [OF n])
  have b: "backwardLookup (Some ''r2'') (renderPage pageB w1) = Misses"
    by (simp add: shape example_lookup renderPage_def windowAtA_def)
  have m: "markerLookup (renderPage pageB w1) = Misses"
    by (simp add: shape example_lookup renderPage_def windowAtA_def pageB_def srcSelectorA_def)
  from run b m n show ?thesis by blast
qed

subsection \<open>Forward and back\<close>

lemma persisted_after_run:
  assumes "truthy (NRVT_transitionImgSelector w)"
      and "persistFault rk w = None"
      and "forwardKey (NRVT_routerKey w) rk \<noteq> backwardKey (NRVT_routerKey w) rk"
  shows "\<exists>w'. windowAfter (handleRouteChangeComplete rk (Some w)) = Some w'
     \<and> sessionStorage w' (forwardKey (NRVT_routerKey w) rk)
         = Some (tmpl (NRVT_transitionImgSelector w))
     \<and> NRVT_transitionImgSelector w' = None
     \<and> NRVT_routerKey w' = rk
     \<and> storageFault w' = storageFault w"
proof (cases "backwardLookup rk w")
  case (Raises err)
  show ?thesis
    using assms
    by (simp add: handle_Some complete_backward_Raises [OF Raises] after_lookup)
next
  case (Finds e)
  show ?thesis
    using assms
    by (simp add: handle_Some complete_backward_Finds [OF Finds] after_lookup later_defs)
next
  case Misses
  show ?thesis
  proof (cases "markerLookup w")
    case (Raises err)
    show ?thesis
      using assms
      by (simp add: handle_Some complete_marker_Raises [OF Misses Raises] after_lookup
          later_defs)
  next
    case Misses': Misses
    show ?thesis
      using assms
      by (simp add: handle_Some complete_marker_Misses [OF Misses Misses'] after_lookup
          later_defs)
  next
    case (Finds t)
    show ?thesis
    proof (cases "markerWriteFault rk w t")
      case None
      show ?thesis
        using assms
        by (simp add: handle_Some complete_marker_Finds_stored [OF Misses Finds None]
            after_lookup later_defs)
    next
      case (Some err)
      show ?thesis
        using assms
        by (simp add: handle_Some complete_marker_Finds_rejected [OF Misses Finds Some]
            after_lookup later_defs)
    qed
  qed
qed

lemma back_leg_lookup:
  assumes "sessionStorage w2 (forwardKey kA rk) = Some s" and "s \<noteq> []"
      and "NRVT_transitionImgSelector w2 = None" and "NRVT_routerKey w2 = rk"
      and "storageFault w2 (GetItem (forwardKey kA rk)) = None"
      and "query dBack s = Found e"
  shows "backwardLookup kA (renderPage dBack w2) = Finds e"
  using assms
  by (simp add: backwardLookup_parts persistFault_def readFault_def storedBackSelector_def
      renderPage_def forwardKey_def backwardKey_def backRouterKey_def)

lemma colliding_round_trip:
  assumes coll: "forwardKey kA kB = backwardKey kA kB"
  shows "thrownBy (forwardThenBack (clickLink 10 ''article 1'') kB pageB pageA
                     (windowAtA\<lparr>NRVT_routerKey := kA\<rparr>)) = None
     \<and> nameAfter (forwardThenBack (clickLink 10 ''article 1'') kB pageB pageA
                     (windowAtA\<lparr>NRVT_routerKey := kA\<rparr>)) 1 = []
     \<and> storedAfter (forwardThenBack (clickLink 10 ''article 1'') kB pageB pageA
                       (windowAtA\<lparr>NRVT_routerKey := kA\<rparr>)) (forwardKey kA kB)
          = Some ''#hero''"
proof -
  let ?w0 = "windowAtA\<lparr>NRVT_routerKey := kA\<rparr>"
  let ?c = "clickLink 10 ''article 1''"
  define w1 where "w1 = ?w0\<lparr>NRVT_transitionImgSelector := Some ''#thumb-a'',
              NRVT_transitionAttributeName := Some ''src'',
              NRVT_transitionAttributeValue := Some ''/img/a.png'',
              placeholderData := Some ''article 1'',
              trace := [QuerySelectorIn 10 ''.transitionable-img'']\<rparr>"
  have f: "foundTransitionImg (document ?w0) (currentTarget ?c) = Some 1"
    by (simp add: foundTransitionImg_def windowAtA_def pageA_def clickLink_def)
  have c: "handleClick ?c ?w0 = Inr w1"
    unfolding click_with_image [OF f] w1_def
    by (simp add: windowAtA_def pageA_def clickLink_def)
  have p1: "persistFault kB (renderPage pageB w1) = None"
    "readFault kB (renderPage pageB w1) = None"
    by (simp_all add: w1_def persistFault_def readFault_def renderPage_def windowAtA_def)
  have s1: "storedBackSelector kB (renderPage pageB w1) = Some ''#thumb-a''"
    using coll
    by (simp add: w1_def storedBackSelector_def renderPage_def)
  have b1: "backwardLookup kB (renderPage pageB w1) = Misses"
    by (simp add: backwardLookup_parts p1 s1)
       (simp add: w1_def renderPage_def pageB_def srcSelectorA_def)
  have m1: "markerLookup (renderPage pageB w1) = Finds 2"
    by (simp add: w1_def markerLookup_def markerSelector_def renderPage_def pageB_def
        srcSelectorA_def)
  have f1: "markerWriteFault kB (renderPage pageB w1) 2 = None"
    by (simp add: w1_def markerWriteFault_def renderPage_def windowAtA_def)
  define w2 where "w2 = clearAttributeValue
            ((logEvent (SetItem (backwardKey (NRVT_routerKey (renderPage pageB w1)) kB)
                          (selectorOf (document (renderPage pageB w1)) 2))
                (setViewTransitionName 2 transitionImgName
                   (logEvent (QuerySelector (markerSelector (renderPage pageB w1)))
                      (cleanUpTransition (afterBackwardLookup kB (renderPage pageB w1))))))
             \<lparr>sessionStorage :=
                 (sessionStorage (afterBackwardLookup kB (renderPage pageB w1)))
                   (backwardKey (NRVT_routerKey (renderPage pageB w1)) kB
                      := Some (selectorOf (document (renderPage pageB w1)) 2))\<rparr>)"
  have r1: "handleRouteChangeComplete kB (Some (renderPage pageB w1)) = Inr (Some w2)"
    by (simp add: handle_Some complete_marker_Finds_stored [OF b1 m1 f1] w2_def)
  have fb: "forwardThenBack ?c kB pageB pageA ?w0
              = handleRouteChangeComplete kA (Some (renderPage pageA w2))"
    by (simp add: forwardThenBack_def clickThenComplete_def c r1)
  have st2: "sessionStorage w2 (forwardKey kA kB) = Some ''#hero''"
    using coll
    by (simp add: w2_def later_defs after_lookup w1_def renderPage_def pageB_def)
  have sl2: "NRVT_transitionImgSelector w2 = None"
    by (simp add: w2_def later_defs after_lookup p1) (simp add: w1_def renderPage_def)
  have k2: "NRVT_routerKey w2 = kB"
    by (simp add: w2_def later_defs after_lookup)
  have n2: "NRVT_transitionAttributeName w2 = Some ''src''"
    by (simp add: w2_def later_defs after_lookup w1_def renderPage_def)
  have v2: "NRVT_transitionAttributeValue w2 = None"
    by (simp add: w2_def later_defs after_lookup)
  have sf2: "storageFault w2 = (\<lambda>ev. None)"
    by (simp add: w2_def later_defs after_lookup w1_def renderPage_def windowAtA_def)
  have back_is_forward: "backwardKey kB kA = forwardKey kA kB"
    by (simp add: forwardKey_def backwardKey_def backRouterKey_def)
  have p2: "persistFault kA (renderPage pageA w2) = None"
    "readFault kA (renderPage pageA w2) = None"
    by (simp_all add: persistFault_def readFault_def renderPage_def sl2 sf2)
  have s2: "storedBackSelector kA (renderPage pageA w2) = Some ''#hero''"
    by (simp add: storedBackSelector_def renderPage_def sl2 k2 back_is_forward st2)
  have b2: "backwardLookup kA (renderPage pageA w2) = Misses"
    by (simp add: backwardLookup_parts p2 s2) (simp add: renderPage_def pageA_def)
  have m2: "markerLookup (renderPage pageA w2) = Misses"
    by (simp add: markerLookup_def markerSelector_def renderPage_def n2 v2 pageA_def)
  have res: "forwardThenBack ?c kB pageB pageA ?w0
      = Inr (Some (clearAttributeValue
              (logEvent (QuerySelector (markerSelector (renderPage pageA w2)))
                 (cleanUpTransition (afterBackwardLookup kA (renderPage pageA w2))))))"
    by (simp add: fb handle_Some complete_marker_Misses [OF b2 m2])
  have "thrownBy (forwardThenBack ?c kB pageB pageA ?w0) = None"
    by (simp add: res)
  moreover
  have "nameAfter (forwardThenBack ?c kB pageB pageA ?w0) 1 = []"
    by (simp add: res later_defs)
  moreover
  have "storedAfter (forwardThenBack ?c kB pageB pageA ?w0) (forwardKey kA kB)
          = Some ''#hero''"
    by (simp add: res later_defs after_lookup renderPage_def sl2 st2)
  ultimately show ?thesis by simp
qed

text \<open>
  C1 (the claim as stated fails). Page A has the key \<open>a-a\<close> and page B the key \<open>a\<close>:
  two different keys whose two directions give the same storage key. Link 10 is clicked
  on page A and image 1 is found; the completion on page B first stores the selector of
  image 1 and then overwrites it with the selector of image 2; the completion of the
  back navigation reads that one, which resolves to nothing on page A. Image 1 is still
  there and resolves from its selector, but it is not given the transition name. The
  same happens when the handler is called without a key on both legs.
\<close>

theorem C1_colliding_round_trip_loses_image:
  "foundTransitionImg pageA (currentTarget (clickLink 10 ''article 1'')) = Some 1
   \<and> query pageA (selectorOf pageA 1) = Found 1
   \<and> Some ''a-a'' \<noteq> Some ''a''
   \<and> thrownBy (forwardThenBack (clickLink 10 ''article 1'') (Some ''a'') pageB pageA
                  (windowAtA\<lparr>NRVT_routerKey := Some ''a-a''\<rparr>)) = None
   \<and> nameAfter (forwardThenBack (clickLink 10 ''article 1'') (Some ''a'') pageB pageA
                   (windowAtA\<lparr>NRVT_routerKey := Some ''a-a''\<rparr>)) 1 = []
   \<and> nameAfter (forwardThenBack (clickLink 10 ''article 1'') None pageB pageA
                   (windowAtA\<lparr>NRVT_routerKey := None\<rparr>)) 1 = []"
proof -
  have f: "foundTransitionImg pageA (currentTarget (clickLink 10 ''article 1'')) = Some 1"
    by (simp add: foundTransitionImg_def pageA_def clickLink_def)
  have alive: "query pageA (selectorOf pageA 1) = Found 1"
    by (simp add: pageA_def)
  have k1: "forwardKey (Some ''a-a'') (Some ''a'') = backwardKey (Some ''a-a'') (Some ''a'')"
    by (simp add: forwardKey_def backwardKey_def backRouterKey_def)
  have k2: "forwardKey None None = backwardKey None None"
    by (simp add: forwardKey_def backwardKey_def backRouterKey_def)
  from colliding_round_trip [OF k1] colliding_round_trip [OF k2] f alive
  show ?thesis by simp
qed

text \<open>
  C1 (amended). A link is clicked on a page and the click finds an image; its navigation
  completes under a new key; then the user goes back and completion runs under the key
  the window started with. If the image's selector is not empty and still resolves to
  the image in the DOM of the back navigation, the storage keys of the two directions of
  the key pair differ, and session storage accepts the write of that selector under
  \<open>prev-curr\<close> and the read of it on the way back, then the back completion returns with
  exactly that image carrying the transition name \<open>__NRVT_transition-img\<close>.
\<close>

theorem C1_back_navigation_marks_clicked_image:
  assumes found: "foundTransitionImg (document w) (currentTarget c) = Some e"
      and sel: "selectorOf (document w) e \<noteq> []"
      and keys: "forwardKey (NRVT_routerKey w) rk \<noteq> backwardKey (NRVT_routerKey w) rk"
      and written: "storageFault w (SetItem (forwardKey (NRVT_routerKey w) rk)
                                      (selectorOf (document w) e)) = None"
      and readable: "storageFault w (GetItem (forwardKey (NRVT_routerKey w) rk)) = None"
      and alive: "query dBack (selectorOf (document w) e) = Found e"
  shows "\<exists>w3. forwardThenBack c rk d dBack w = Inr (Some w3)
     \<and> viewTransitionName (document w3)
         = (\<lambda>x. if x = e then ''__NRVT_transition-img'' else [])
     \<and> NRVT_routerKey w3 = NRVT_routerKey w \<and> NRVT_previousRouterKey w3 = rk"
proof -
  from click_with_image [OF found] obtain w1 where
    c: "handleClick c w = Inr w1"
    and s1: "NRVT_transitionImgSelector w1 = Some (selectorOf (document w) e)"
    and k1: "NRVT_routerKey w1 = NRVT_routerKey w"
    and f1: "storageFault w1 = storageFault w"
    by simp
  have slot: "truthy (NRVT_transitionImgSelector (renderPage d w1))"
    using sel by (simp add: renderPage_def s1)
  have pf: "persistFault rk (renderPage d w1) = None"
    using sel written by (simp add: persistFault_def renderPage_def s1 k1 f1)
  have k: "forwardKey (NRVT_routerKey (renderPage d w1)) rk
             \<noteq> backwardKey (NRVT_routerKey (renderPage d w1)) rk"
    using keys by (simp add: renderPage_def k1)
  from persisted_after_run [OF slot pf k] obtain w2 where
    w2: "windowAfter (handleRouteChangeComplete rk (Some (renderPage d w1))) = Some w2"
    and st: "sessionStorage w2 (forwardKey (NRVT_routerKey w) rk)
               = Some (selectorOf (document w) e)"
    and sl: "NRVT_transitionImgSelector w2 = None"
    and key2: "NRVT_routerKey w2 = rk"
    and f2: "storageFault w2 = storageFault w"
    by (auto simp: renderPage_def s1 k1 f1)
  have fb: "forwardThenBack c rk d dBack w
              = handleRouteChangeComplete (NRVT_routerKey w) (Some (renderPage dBack w2))"
    by (simp add: forwardThenBack_def clickThenComplete_def c w2)
  have rd: "storageFault w2 (GetItem (forwardKey (NRVT_routerKey w) rk)) = None"
    using readable by (simp add: f2)
  have hit: "backwardLookup (NRVT_routerKey w) (renderPage dBack w2) = Finds e"
    by (rule back_leg_lookup [OF st sel sl key2 rd alive])
  show ?thesis
    by (simp add: fb handle_Some complete_backward_Finds [OF hit] after_lookup later_defs
        fun_eq_iff transitionImgName_def)
       (simp add: renderPage_def key2)
qed

theorem C1_back_navigation_marks_clicked_image_witness:
  "foundTransitionImg (document windowAtA) (currentTarget (clickLink 10 ''article 1''))
     = Some 1
   \<and> selectorOf (document windowAtA) 1 \<noteq> []
   \<and> forwardKey (NRVT_routerKey windowAtA) (Some ''r2'')
       \<noteq> backwardKey (NRVT_routerKey windowAtA) (Some ''r2'')
   \<and> storageFault windowAtA = (\<lambda>ev. None)
   \<and> query pageA (selectorOf (document windowAtA) 1) = Found 1
   \<and> (\<exists>w3. forwardThenBack (clickLink 10 ''article 1'') (Some ''r2'') pageB pageA windowAtA
              = Inr (Some w3)
         \<and> viewTransitionName (document w3)
             = (\<lambda>x. if x = 1 then ''__NRVT_transition-img'' else [])
         \<and> NRVT_routerKey w3 = Some ''r1'' \<and> NRVT_previousRouterKey w3 = Some ''r2'')"
proof -
  have f: "foundTransitionImg (document windowAtA) (currentTarget (clickLink 10 ''article 1''))
             = Some 1"
    by (simp add: foundTransitionImg_def windowAtA_def pageA_def clickLink_def)
  have s: "selectorOf (document windowAtA) 1 \<noteq> []"
    by (simp add: windowAtA_def pageA_def)
  have k: "forwardKey (NRVT_routerKey windowAtA) (Some ''r2'')
             \<noteq> backwardKey (NRVT_routerKey windowAtA) (Some ''r2'')"
    by (simp add: windowAtA_def forwardKey_def backwardKey_def backRouterKey_def)
  have sf: "storageFault windowAtA = (\<lambda>ev. None)"
    by (simp add: windowAtA_def)
  have wr: "storageFault windowAtA
              (SetItem (forwardKey (NRVT_routerKey windowAtA) (Some ''r2''))
                 (selectorOf (document windowAtA) 1)) = None"
    by (simp add: sf)
  have rd: "storageFault windowAtA
              (GetItem (forwardKey (NRVT_routerKey windowAtA) (Some ''r2''))) = None"
    by (simp add: sf)
  have a: "query pageA (selectorOf (document windowAtA) 1) = Found 1"
    by (simp add: windowAtA_def pageA_def)
  have r: "NRVT_routerKey windowAtA = Some ''r1''"
    by (simp add: windowAtA_def)
  have "\<exists>w3. forwardThenBack (clickLink 10 ''article 1'') (Some ''r2'') pageB pageA windowAtA
              = Inr (Some w3)
         \<and> viewTransitionName (document w3)
             = (\<lambda>x. if x = 1 then ''__NRVT_transition-img'' else [])
         \<and> NRVT_routerKey w3 = NRVT_routerKey windowAtA
         \<and> NRVT_previousRouterKey w3 = Some ''r2''"
    by (rule C1_back_navigation_marks_clicked_image [OF f s k wr rd a])
  then have run: "\<exists>w3. forwardThenBack (clickLink 10 ''article 1'') (Some ''r2'') pageB pageA
                      windowAtA = Inr (Some w3)
         \<and> viewTransitionName (document w3)
             = (\<lambda>x. if x = 1 then ''__NRVT_transition-img'' else [])
         \<and> NRVT_routerKey w3 = Some ''r1'' \<and> NRVT_previousRouterKey w3 = Some ''r2''"
    by (simp only: r)
  show ?thesis
    by (intro conjI f s k sf a run)
qed

end
